theory Spec2Isabelle
  imports Main
begin

section \<open>The Docker orchestration engine of longhorn-orc (orch/docker/docker.go)\<close>

text \<open>
  A shallow embedding of the methods of \<open>dockerOrc\<close>. The engine mediates between three
  collaborators that it does not own: the Metadata Store (etcd), the Container Runtime
  (the Docker client) and the Placement Scheduler. Their answers are fields of the record
  \<open>dockerOrc\<close> (oracles, chosen freely by whoever states a theorem); what the engine does
  to them is recorded in the record \<open>world\<close>: the stored volumes, the Container Runtime
  calls issued so far and the requests handed to the Scheduler.
\<close>

subsection \<open>Errors\<close>

text \<open>
  Go errors are values. \<open>External\<close> is an error produced by a collaborator;
  \<open>Errorf\<close> is \<open>errors.Errorf\<close>, identified by its format string (the formatted arguments
  are not modelled); \<open>Wrapped e msg\<close> is \<open>errors.Wrap(e, msg)\<close> for a non-nil \<open>e\<close>.
  \<open>Panic\<close> is a Go run-time panic (a nil pointer dereference): not a returned error, but an
  outcome of the call all the same.
\<close>

datatype error =
    External string
  | Errorf string
  | Wrapped error string
  | Panic string

text \<open>\<open>errors.Wrap\<close> and \<open>errors.Wrapf\<close> of github.com/pkg/errors: wrapping nil gives nil.\<close>

fun errors_Wrap :: "error option \<Rightarrow> string \<Rightarrow> error option" where
  "errors_Wrap None msg = None"
| "errors_Wrap (Some err) msg = Some (Wrapped err msg)"

text \<open>
  A Go function returning \<open>(*T, error)\<close> is modelled with the result type
  \<open>error + 'a option\<close>: \<open>Inl e\<close> is \<open>(nil, e)\<close>, \<open>Inr (Some x)\<close> is \<open>(&x, nil)\<close> and
  \<open>Inr None\<close> is \<open>(nil, nil)\<close>. \<open>go_return p err\<close> is the statement \<open>return p, err\<close>.
\<close>

fun go_return :: "'a option \<Rightarrow> error option \<Rightarrow> error + 'a option" where
  "go_return p (Some err) = Inl err"
| "go_return p None = Inr p"

subsection \<open>Data model (package types, from the spec's data model)\<close>

text \<open>
  Modelled from the spec: the structs of package types (\<open>HostInfo\<close>, \<open>InstanceInfo\<close>,
  \<open>ReplicaInfo\<close>, \<open>ControllerInfo\<close>, \<open>VolumeInfo\<close>, \<open>ScheduleItem\<close> and its parts) are
  declared outside docker.go. Their fields are those of the spec's data model, which are
  also the fields docker.go reads and writes. A field name used by two structs gets a
  prefix.

  \<open>time.Time\<close> is kept as nanoseconds since the zero time; the zero value is \<open>0\<close>.
\<close>

type_synonym time = int

datatype InstanceType = InstanceTypeNone | InstanceTypeController | InstanceTypeReplica

record HostInfo =
  UUID :: string
  hName :: string
  hAddress :: string

record InstanceInfo =
  ID :: string
  Type :: InstanceType
  Name :: string
  HostID :: string
  Address :: string
  Running :: bool

record ReplicaInfo = InstanceInfo +
  BadTimestamp :: time

datatype ControllerInfo = ControllerInfo InstanceInfo

text \<open>
  \<open>Replicas\<close> is a Go map. It is kept as an association list with distinct keys whose order
  is the order in which a \<open>range\<close> over the map visits the entries (Go leaves that order
  unspecified, so theorems hold for every order). \<open>Size\<close> is an \<open>int64\<close>; the code only
  compares it with zero and prints it.
\<close>

record VolumeInfo =
  vName :: string
  Size :: int
  vLonghornImage :: string
  Replicas :: "(string \<times> ReplicaInfo) list"

record dockerScheduleData =
  InstanceName :: string
  VolumeName :: string
  VolumeSize :: string
  LonghornImage :: string
  ReplicaAddresses :: "string list"

text \<open>
  The opaque payload \<open>[]byte\<close> of a schedule request: empty, the JSON encoding of a
  \<open>dockerScheduleData\<close>, or bytes that \<open>json.Unmarshal\<close> rejects.
\<close>

datatype bytes = NoBytes | Json dockerScheduleData | Malformed string

definition json_Marshal :: "dockerScheduleData \<Rightarrow> error + bytes" where
  "json_Marshal data = Inr (Json data)"

fun json_Unmarshal :: "bytes \<Rightarrow> dockerScheduleData \<Rightarrow> error + dockerScheduleData" where
  "json_Unmarshal (Json x) data = Inr x"
| "json_Unmarshal (Malformed s) data = Inl (External s)"
| "json_Unmarshal NoBytes data = Inl (External ''unexpected end of JSON input'')"

fun len_bytes :: "bytes \<Rightarrow> nat" where
  "len_bytes NoBytes = 0"
| "len_bytes (Json x) = 1"
| "len_bytes (Malformed s) = 1"

datatype ScheduleAction =
    ScheduleActionCreateController
  | ScheduleActionCreateReplica
  | ScheduleActionStartInstance
  | ScheduleActionStopInstance
  | ScheduleActionDeleteInstance
  | OtherAction string

record ScheduleInstance =
  sID :: string
  sType :: InstanceType
  sHostID :: string

record ScheduleData =
  Orchestrator :: string
  Data :: bytes

record ScheduleItem =
  Action :: ScheduleAction
  Instance :: ScheduleInstance
  sData :: ScheduleData

subsection \<open>The Container Runtime client\<close>

record Config =
  ExposedPorts :: "string list"
  cImage :: string
  Volumes :: "string list"
  Cmd :: "string list"

record HostConfig =
  Binds :: "string list"
  Privileged :: bool

record ContainerJSON =
  jID :: string
  jName :: string
  IPAddress :: string
  jRunning :: bool

text \<open>The calls the engine can issue on the Container Runtime, with their arguments.\<close>

datatype rt_call =
    Create Config HostConfig string
  | Start string
  | Stop string nat
  | Remove string bool
  | Inspect string

text \<open>Where the Scheduler sends a request: to this host's engine, or elsewhere (another
  host's engine executes it, or scheduling fails) with the result that comes back.\<close>

datatype routing = ThisHost | Elsewhere "error + InstanceInfo"

subsection \<open>The engine and the world it acts on\<close>

text \<open>
  The struct \<open>dockerOrc\<close>. The handles \<open>kapi\<close>, \<open>cli\<close> and \<open>scheduler\<close> are modelled by
  what the collaborator behind them answers: the runtime's answers may depend on the
  calls it has received so far. \<open>util_WaitForAPI\<close>, \<open>util_WaitForDevice\<close> (package util),
  \<open>time_Now\<close> and \<open>filepath_Join\<close> are the environment the methods read.
\<close>

record dockerOrc =
  Servers :: "string list"
  Prefix :: string
  orcLonghornImage :: string
  currentHost :: HostInfo
  kapi_Get :: "string \<Rightarrow> error option"
  kapi_Set :: "string \<Rightarrow> error option"
  cli_ContainerCreate :: "rt_call list \<Rightarrow> Config \<Rightarrow> HostConfig \<Rightarrow> string \<Rightarrow> error + string"
  cli_ContainerStart :: "rt_call list \<Rightarrow> string \<Rightarrow> error option"
  cli_ContainerStop :: "rt_call list \<Rightarrow> string \<Rightarrow> nat \<Rightarrow> error option"
  cli_ContainerRemove :: "rt_call list \<Rightarrow> string \<Rightarrow> bool \<Rightarrow> error option"
  cli_ContainerInspect :: "rt_call list \<Rightarrow> string \<Rightarrow> error + ContainerJSON"
  scheduler :: "ScheduleItem \<Rightarrow> routing"
  util_WaitForAPI :: "string \<Rightarrow> nat \<Rightarrow> error option"
  util_WaitForDevice :: "string \<Rightarrow> nat \<Rightarrow> error option"
  time_Now :: time
  filepath_Join :: "string \<Rightarrow> string \<Rightarrow> string"

record world =
  volumes :: "string \<rightharpoonup> VolumeInfo"
  calls :: "rt_call list"
  scheduled :: "ScheduleItem list"

definition OrcName :: string where
  "OrcName = ''docker''"

definition ContainerStopTimeout :: nat where
  "ContainerStopTimeout = 60"

definition WaitDeviceTimeout :: nat where
  "WaitDeviceTimeout = 30"

definition WaitAPITimeout :: nat where
  "WaitAPITimeout = 30"

subsection \<open>The Metadata Store helpers\<close>

text \<open>
  Modelled from the spec: \<open>getVolume\<close> and \<open>setVolume\<close> are methods of \<open>dockerOrc\<close> defined
  outside docker.go (the etcd helpers). The spec gives the Metadata Store as namespaced
  get and set of Volume records keyed by name that round-trip the record exactly, a
  lookup of an absent volume failing with NotFound, and store failures as errors. A read
  or write that the store fails (\<open>kapi_Get\<close>, \<open>kapi_Set\<close>) returns that error and changes
  nothing.
\<close>

definition getVolume :: "dockerOrc \<Rightarrow> string \<Rightarrow> world \<Rightarrow> error + VolumeInfo option" where
  "getVolume d volumeName w =
     (case kapi_Get d volumeName of
        Some err \<Rightarrow> Inl err
      | None \<Rightarrow>
          (case volumes w volumeName of
             None \<Rightarrow> Inl (External ''NotFound'')
           | Some v \<Rightarrow> Inr (Some v)))"

definition setVolume :: "dockerOrc \<Rightarrow> VolumeInfo \<Rightarrow> world \<Rightarrow> error option \<times> world" where
  "setVolume d volume w =
     (case kapi_Set d (vName volume) of
        Some err \<Rightarrow> (Some err, w)
      | None \<Rightarrow> (None, w\<lparr>volumes := (volumes w)(vName volume \<mapsto> volume)\<rparr>))"

subsection \<open>Volume operations\<close>

definition CreateVolume :: "dockerOrc \<Rightarrow> VolumeInfo \<Rightarrow> world \<Rightarrow> (error + VolumeInfo) \<times> world" where
  "CreateVolume d volume w =
     (case getVolume d (vName volume) w of
        Inr (Some v) \<Rightarrow> (Inl (Errorf ''volume %v already exists %+v''), w)
      | _ \<Rightarrow>
          (case setVolume d volume w of
             (Some err, w') \<Rightarrow> (Inl (Wrapped err ''fail to create new volume metadata''), w')
           | (None, w') \<Rightarrow> (Inr volume, w')))"

definition GetVolume :: "dockerOrc \<Rightarrow> string \<Rightarrow> world \<Rightarrow> error + VolumeInfo option" where
  "GetVolume d volumeName w = getVolume d volumeName w"

definition UpdateVolume :: "dockerOrc \<Rightarrow> VolumeInfo \<Rightarrow> world \<Rightarrow> error option \<times> world" where
  "UpdateVolume d volume w =
     (case getVolume d (vName volume) w of
        Inl err \<Rightarrow>
          (Some (Errorf ''cannot update volume %v because it doesn't exists %+v''), w)
      | Inr v \<Rightarrow> setVolume d volume w)"

text \<open>
  The loop of \<open>MarkBadReplica\<close> over \<open>v.Replicas\<close>: the first entry visited whose \<open>Name\<close> is
  the wanted one gets the time stamp and is stored back under its key; then \<open>break\<close>.
\<close>

fun markReplicas :: "string \<Rightarrow> time \<Rightarrow> (string \<times> ReplicaInfo) list \<Rightarrow> (string \<times> ReplicaInfo) list" where
  "markReplicas n t [] = []"
| "markReplicas n t ((k, r) # rest) =
     (if Name r = n then (k, r\<lparr>BadTimestamp := t\<rparr>) # rest
      else (k, r) # markReplicas n t rest)"

definition MarkBadReplica :: "dockerOrc \<Rightarrow> string \<Rightarrow> ReplicaInfo \<Rightarrow> world \<Rightarrow> error option \<times> world" where
  "MarkBadReplica d volumeName replica w =
     (case getVolume d volumeName w of
        Inl err \<Rightarrow> (Some (Wrapped err ''fail to mark bad replica, cannot get volume''), w)
      | Inr None \<Rightarrow> (Some (Panic ''nil pointer dereference''), w)
      | Inr (Some v) \<Rightarrow>
          (let v' = v\<lparr>Replicas := markReplicas (Name replica) (time_Now d) (Replicas v)\<rparr>
           in case UpdateVolume d v' w of
                (Some err, w') \<Rightarrow>
                  (Some (Wrapped err ''fail to mark bad replica, cannot update volume''), w')
              | (None, w') \<Rightarrow> (None, w')))"

subsection \<open>Container Runtime calls\<close>

text \<open>Every call is appended to the log of the world, whether the runtime accepts it or not.\<close>

definition ContainerCreate ::
    "dockerOrc \<Rightarrow> Config \<Rightarrow> HostConfig \<Rightarrow> string \<Rightarrow> world \<Rightarrow> (error + string) \<times> world" where
  "ContainerCreate d config hostConfig containerName w =
     (cli_ContainerCreate d (calls w) config hostConfig containerName,
      w\<lparr>calls := calls w @ [Create config hostConfig containerName]\<rparr>)"

definition ContainerStart :: "dockerOrc \<Rightarrow> string \<Rightarrow> world \<Rightarrow> error option \<times> world" where
  "ContainerStart d containerID w =
     (cli_ContainerStart d (calls w) containerID,
      w\<lparr>calls := calls w @ [Start containerID]\<rparr>)"

definition ContainerStop :: "dockerOrc \<Rightarrow> string \<Rightarrow> nat \<Rightarrow> world \<Rightarrow> error option \<times> world" where
  "ContainerStop d containerID timeout w =
     (cli_ContainerStop d (calls w) containerID timeout,
      w\<lparr>calls := calls w @ [Stop containerID timeout]\<rparr>)"

definition ContainerRemove :: "dockerOrc \<Rightarrow> string \<Rightarrow> bool \<Rightarrow> world \<Rightarrow> error option \<times> world" where
  "ContainerRemove d containerID removeVolumes w =
     (cli_ContainerRemove d (calls w) containerID removeVolumes,
      w\<lparr>calls := calls w @ [Remove containerID removeVolumes]\<rparr>)"

definition ContainerInspect :: "dockerOrc \<Rightarrow> string \<Rightarrow> world \<Rightarrow> (error + ContainerJSON) \<times> world" where
  "ContainerInspect d containerID w =
     (cli_ContainerInspect d (calls w) containerID,
      w\<lparr>calls := calls w @ [Inspect containerID]\<rparr>)"

subsection \<open>Instance handlers\<close>

definition GetCurrentHostID :: "dockerOrc \<Rightarrow> string" where
  "GetCurrentHostID d = UUID (currentHost d)"

definition strings_TrimPrefix :: "string \<Rightarrow> string \<Rightarrow> string" where
  "strings_TrimPrefix s p = (if take (length p) s = p then drop (length p) s else s)"

definition generateInstanceInfo ::
    "dockerOrc \<Rightarrow> string \<Rightarrow> InstanceType \<Rightarrow> world \<Rightarrow> (error + InstanceInfo) \<times> world" where
  "generateInstanceInfo d instanceID instanceType w =
     (case ContainerInspect d instanceID w of
        (Inl err, w') \<Rightarrow> (Inl (Wrapped err ''fail to inspect replica container''), w')
      | (Inr inspectJSON, w') \<Rightarrow>
          (Inr \<lparr>ID = jID inspectJSON,
                Type = instanceType,
                Name = strings_TrimPrefix (jName inspectJSON) ''/'',
                HostID = GetCurrentHostID d,
                Address = IPAddress inspectJSON,
                Running = jRunning inspectJSON\<rparr>, w'))"

definition startInstance ::
    "dockerOrc \<Rightarrow> string \<Rightarrow> InstanceType \<Rightarrow> world \<Rightarrow> (error + InstanceInfo) \<times> world" where
  "startInstance d instanceID instanceType w =
     (case ContainerStart d instanceID w of
        (Some err, w') \<Rightarrow> (Inl (Wrapped err ''fail to start instance '%v' type %v''), w')
      | (None, w') \<Rightarrow> generateInstanceInfo d instanceID instanceType w')"

definition stopInstance ::
    "dockerOrc \<Rightarrow> string \<Rightarrow> InstanceType \<Rightarrow> world \<Rightarrow> (error + InstanceInfo) \<times> world" where
  "stopInstance d instanceID instanceType w =
     (case ContainerStop d instanceID ContainerStopTimeout w of
        (Some err, w') \<Rightarrow> (Inl (Wrapped err (''fail to start instance '%v'' @ [CHR 0x27])), w')
      | (None, w') \<Rightarrow> generateInstanceInfo d instanceID instanceType w')"

definition removeInstance ::
    "dockerOrc \<Rightarrow> string \<Rightarrow> InstanceType \<Rightarrow> world \<Rightarrow> (error + InstanceInfo) \<times> world" where
  "removeInstance d instanceID instanceType w =
     (case ContainerRemove d instanceID True w of
        (Some err, w') \<Rightarrow> (Inl (Wrapped err ''Fail to remove instance %v''), w')
      | (None, w') \<Rightarrow>
          (Inr \<lparr>ID = instanceID, Type = instanceType, Name = [], HostID = [],
                Address = [], Running = False\<rparr>, w'))"

definition getDeviceName :: "dockerOrc \<Rightarrow> string \<Rightarrow> string" where
  "getDeviceName d volumeName = filepath_Join d ''/dev/longhorn/'' volumeName"

text \<open>
  The command and the two configurations that \<open>createController\<close> passes to
  \<open>ContainerCreate\<close> (the \<open>cmd\<close> slice with its \<open>append\<close> loop, and the two struct
  literals), named so that theorems can refer to them.
\<close>

definition controllerCmd :: "dockerScheduleData \<Rightarrow> string list" where
  "controllerCmd data =
     (let cmd0 = [''launch'', ''controller'',
                  ''--listen'', ''0.0.0.0:9501'',
                  ''--frontend'', ''tgt''];
          cmd1 = foldl (\<lambda>cmd address. cmd @ [''--replica'', address]) cmd0 (ReplicaAddresses data)
      in cmd1 @ [VolumeName data])"

definition controllerConfig :: "dockerScheduleData \<Rightarrow> Config" where
  "controllerConfig data =
     \<lparr>ExposedPorts = [], cImage = LonghornImage data, Volumes = [], Cmd = controllerCmd data\<rparr>"

definition controllerHostConfig :: HostConfig where
  "controllerHostConfig =
     \<lparr>Binds = [''/dev:/host/dev'', ''/proc:/host/proc''], Privileged = True\<rparr>"

definition createController ::
    "dockerOrc \<Rightarrow> dockerScheduleData \<Rightarrow> world \<Rightarrow> (error + InstanceInfo) \<times> world" where
  "createController d data w =
     (case ContainerCreate d (controllerConfig data) controllerHostConfig (InstanceName data) w of
        (Inl err, w1) \<Rightarrow> (Inl (Wrapped err ''fail to create controller container''), w1)
      | (Inr createBody_ID, w1) \<Rightarrow>
          (case startInstance d createBody_ID InstanceTypeController w1 of
             (Inl err, w2) \<Rightarrow>
               (let (removed, w3) = removeInstance d createBody_ID InstanceTypeController w2
                in (Inl (Wrapped err ''fail to start controller container''), w3))
           | (Inr instance0, w2) \<Rightarrow>
               (let instance = instance0\<lparr>Address := ''http://'' @ Address instance0 @ '':9501''\<rparr>;
                    url = Address instance @ ''/v1''
                in case util_WaitForAPI d url WaitAPITimeout of
                     Some err \<Rightarrow>
                       (Inl (Wrapped err ''fail to wait for api endpoint at %v''), w2)
                   | None \<Rightarrow>
                       (case util_WaitForDevice d (getDeviceName d (VolumeName data))
                               WaitDeviceTimeout of
                          Some err \<Rightarrow> (Inl (Wrapped err ''fail to wait for device''), w2)
                        | None \<Rightarrow> (Inr instance, w2)))))"

text \<open>The same for \<open>createReplica\<close>.\<close>

definition replicaCmd :: "dockerScheduleData \<Rightarrow> string list" where
  "replicaCmd data =
     [''launch'', ''replica'',
      ''--listen'', ''0.0.0.0:9502'',
      ''--size'', VolumeSize data,
      ''/volume'']"

definition replicaConfig :: "dockerScheduleData \<Rightarrow> Config" where
  "replicaConfig data =
     \<lparr>ExposedPorts = [''9502-9504''], cImage = LonghornImage data,
      Volumes = [''/volume''], Cmd = replicaCmd data\<rparr>"

definition replicaHostConfig :: HostConfig where
  "replicaHostConfig = \<lparr>Binds = [], Privileged = True\<rparr>"

definition createReplica ::
    "dockerOrc \<Rightarrow> dockerScheduleData \<Rightarrow> world \<Rightarrow> (error + InstanceInfo) \<times> world" where
  "createReplica d data w =
     (case ContainerCreate d (replicaConfig data) replicaHostConfig (InstanceName data) w of
        (Inl err, w1) \<Rightarrow> (Inl (Wrapped err ''fail to create replica container''), w1)
      | (Inr createBody_ID, w1) \<Rightarrow>
          (case startInstance d createBody_ID InstanceTypeReplica w1 of
             (Inl err, w2) \<Rightarrow>
               (let (removed, w3) = removeInstance d createBody_ID InstanceTypeReplica w2
                in (Inl (Wrapped err ''fail to start replica container''), w3))
           | (Inr instance, w2) \<Rightarrow> (Inr instance, w2)))"

subsection \<open>The local executor\<close>

text \<open>The zero value of \<open>dockerScheduleData\<close>, which \<open>var data\<close> declares.\<close>

definition zero_dockerScheduleData :: dockerScheduleData where
  "zero_dockerScheduleData =
     \<lparr>InstanceName = [], VolumeName = [], VolumeSize = [], LonghornImage = [],
      ReplicaAddresses = []\<rparr>"

definition ProcessSchedule ::
    "dockerOrc \<Rightarrow> ScheduleItem \<Rightarrow> world \<Rightarrow> (error + InstanceInfo) \<times> world" where
  "ProcessSchedule d item w =
     (if Orchestrator (sData item) \<noteq> OrcName
      then (Inl (Errorf ''received request for the wrong orchestrator %v''), w)
      else
        case (if len_bytes (Data (sData item)) \<noteq> 0
              then json_Unmarshal (Data (sData item)) zero_dockerScheduleData
              else Inr zero_dockerScheduleData) of
          Inl err \<Rightarrow> (Inl (Wrapped err ''fail to parse schedule data''), w)
        | Inr data \<Rightarrow>
            if sID (Instance item) = [] then (Inl (Errorf ''empty instance ID''), w)
            else
              (case Action item of
                 ScheduleActionCreateController \<Rightarrow> createController d data w
               | ScheduleActionCreateReplica \<Rightarrow> createReplica d data w
               | ScheduleActionStartInstance \<Rightarrow>
                   startInstance d (sID (Instance item)) (sType (Instance item)) w
               | ScheduleActionStopInstance \<Rightarrow>
                   stopInstance d (sID (Instance item)) (sType (Instance item)) w
               | ScheduleActionDeleteInstance \<Rightarrow>
                   removeInstance d (sID (Instance item)) (sType (Instance item)) w
               | OtherAction a \<Rightarrow> (Inl (Errorf ''Cannot find specified action %v''), w)))"

subsection \<open>The Placement Scheduler\<close>

text \<open>
  Modelled from the spec: \<open>Schedule\<close> is the method of the Scheduler (package scheduler,
  outside docker.go). The spec gives it as: it accepts a Schedule Request, decides the
  executing host, forwards the request, locally or over the network, to that host's
  engine, which runs \<open>ProcessSchedule\<close>, and returns the resulting Instance record. The
  decision is the oracle \<open>scheduler\<close>; a request executed elsewhere issues no call on this
  host's Container Runtime. Every request received is appended to \<open>scheduled\<close>.
\<close>

definition Schedule ::
    "dockerOrc \<Rightarrow> ScheduleItem \<Rightarrow> world \<Rightarrow> (error + InstanceInfo) \<times> world" where
  "Schedule d item w =
     (let w1 = w\<lparr>scheduled := scheduled w @ [item]\<rparr>
      in case scheduler d item of
           ThisHost \<Rightarrow> ProcessSchedule d item w1
         | Elsewhere res \<Rightarrow> (res, w1))"

subsection \<open>Creating controllers and replicas\<close>

text \<open>\<open>strconv.FormatInt(i, 10)\<close>.\<close>

definition digit_char :: "nat \<Rightarrow> char" where
  "digit_char n = ''0123456789'' ! n"

function FormatUint :: "nat \<Rightarrow> string" where
  "FormatUint n = (if n < 10 then [digit_char n] else FormatUint (n div 10) @ [digit_char (n mod 10)])"
  by pat_completeness auto
termination
  by (relation "measure (\<lambda>n. n)") auto

definition FormatInt :: "int \<Rightarrow> string" where
  "FormatInt i = (if i < 0 then CHR ''-'' # FormatUint (nat (- i)) else FormatUint (nat i))"

text \<open>
  In both \<open>prepare\<close> functions the branches after the first test run with \<open>err\<close> equal to
  nil, and wrap that nil.
\<close>

definition prepareCreateController ::
    "dockerOrc \<Rightarrow> string \<Rightarrow> string \<Rightarrow> (string \<times> ReplicaInfo) list \<Rightarrow> world
      \<Rightarrow> error + ScheduleData option" where
  "prepareCreateController d volumeName controllerName replicas w =
     (case getVolume d volumeName w of
        Inl err \<Rightarrow> go_return None (errors_Wrap (Some err) ''unable to create controller'')
      | Inr None \<Rightarrow> go_return None (errors_Wrap None ''unable to find volume %v'')
      | Inr (Some volume) \<Rightarrow>
          (let data0 = \<lparr>InstanceName = controllerName,
                        VolumeName = volumeName,
                        VolumeSize = [],
                        LonghornImage = vLonghornImage volume,
                        ReplicaAddresses = []\<rparr>;
               data = foldl (\<lambda>data (k, replica).
                               data\<lparr>ReplicaAddresses := ReplicaAddresses data
                                      @ [''tcp://'' @ Address replica @ '':9502'']\<rparr>)
                            data0 replicas
           in case json_Marshal data of
                Inl err \<Rightarrow> go_return None (errors_Wrap (Some err) ''unable to marshall %+v'')
              | Inr bData \<Rightarrow>
                  go_return (Some \<lparr>Orchestrator = OrcName, Data = bData\<rparr>) None))"

definition CreateController ::
    "dockerOrc \<Rightarrow> string \<Rightarrow> string \<Rightarrow> (string \<times> ReplicaInfo) list \<Rightarrow> world
      \<Rightarrow> (error + ControllerInfo) \<times> world" where
  "CreateController d volumeName controllerName replicas w =
     (case prepareCreateController d volumeName controllerName replicas w of
        Inl err \<Rightarrow> (Inl (Wrapped err ''Fail to create controller for %v''), w)
      | Inr None \<Rightarrow> (Inl (Panic ''nil pointer dereference''), w)
      | Inr (Some data) \<Rightarrow>
          (let schedule = \<lparr>Action = ScheduleActionCreateController,
                           Instance = \<lparr>sID = controllerName,
                                       sType = InstanceTypeController,
                                       sHostID = GetCurrentHostID d\<rparr>,
                           sData = data\<rparr>
           in case Schedule d schedule w of
                (Inl err, w') \<Rightarrow> (Inl (Wrapped err ''Fail to create controller for %v''), w')
              | (Inr instance, w') \<Rightarrow> (Inr (ControllerInfo instance), w')))"

definition prepareCreateReplica ::
    "dockerOrc \<Rightarrow> string \<Rightarrow> string \<Rightarrow> world \<Rightarrow> error + ScheduleData option" where
  "prepareCreateReplica d volumeName replicaName w =
     (case getVolume d volumeName w of
        Inl err \<Rightarrow> go_return None (errors_Wrap (Some err) ''unable to create replica'')
      | Inr None \<Rightarrow> go_return None (errors_Wrap None ''unable to find volume %v'')
      | Inr (Some volume) \<Rightarrow>
          if Size volume = 0 then go_return None (errors_Wrap None ''invalid volume size 0'')
          else
            (let data = \<lparr>InstanceName = replicaName,
                         VolumeName = vName volume,
                         VolumeSize = FormatInt (Size volume),
                         LonghornImage = vLonghornImage volume,
                         ReplicaAddresses = []\<rparr>
             in case json_Marshal data of
                  Inl err \<Rightarrow> go_return None (errors_Wrap (Some err) ''unable to marshall %+v'')
                | Inr bData \<Rightarrow>
                    go_return (Some \<lparr>Orchestrator = OrcName, Data = bData\<rparr>) None))"

text \<open>The replica's request leaves \<open>HostID\<close> out: it has the zero value, the empty string.\<close>

definition CreateReplica ::
    "dockerOrc \<Rightarrow> string \<Rightarrow> string \<Rightarrow> world \<Rightarrow> (error + ReplicaInfo) \<times> world" where
  "CreateReplica d volumeName replicaName w =
     (case prepareCreateReplica d volumeName replicaName w of
        Inl err \<Rightarrow> (Inl (Wrapped err ''Fail to create replica for %v''), w)
      | Inr None \<Rightarrow> (Inl (Panic ''nil pointer dereference''), w)
      | Inr (Some data) \<Rightarrow>
          (let schedule = \<lparr>Action = ScheduleActionCreateReplica,
                           Instance = \<lparr>sID = replicaName,
                                       sType = InstanceTypeReplica,
                                       sHostID = []\<rparr>,
                           sData = data\<rparr>
           in case Schedule d schedule w of
                (Inl err, w') \<Rightarrow> (Inl (Wrapped err ''Fail to create replica for %v''), w')
              | (Inr instance, w') \<Rightarrow>
                  (Inr (InstanceInfo.extend instance \<lparr>BadTimestamp = 0\<rparr>), w')))"

subsection \<open>A simulated deployment\<close>

text \<open>
  Collaborators that always succeed, for the concrete runs below: a store that is
  reachable, a runtime that names a container \<open>id-<name>\<close> and reports it running at
  \<open>10.0.0.6\<close>, a Scheduler that routes a request to this host when the request names this
  host or no host, and probes that answer at once. Faults are injected by updating a
  field.
\<close>

definition simHost :: HostInfo where
  "simHost = \<lparr>UUID = ''host-1'', hName = ''node1'', hAddress = ''10.0.0.1:9500''\<rparr>"

definition simOrc :: dockerOrc where
  "simOrc =
     \<lparr>Servers = [''http://127.0.0.1:2379''],
      Prefix = ''/longhorn'',
      orcLonghornImage = ''longhornio/engine:v1'',
      currentHost = simHost,
      kapi_Get = (\<lambda>key. None),
      kapi_Set = (\<lambda>key. None),
      cli_ContainerCreate = (\<lambda>log config hostConfig containerName. Inr (''id-'' @ containerName)),
      cli_ContainerStart = (\<lambda>log containerID. None),
      cli_ContainerStop = (\<lambda>log containerID timeout. None),
      cli_ContainerRemove = (\<lambda>log containerID removeVolumes. None),
      cli_ContainerInspect =
        (\<lambda>log containerID.
           Inr \<lparr>jID = containerID, jName = ''/'' @ drop 3 containerID,
                IPAddress = ''10.0.0.6'', jRunning = True\<rparr>),
      scheduler =
        (\<lambda>item. if sHostID (Instance item) = ''host-1'' \<or> sHostID (Instance item) = []
                then ThisHost else Elsewhere (Inl (External ''host unreachable''))),
      util_WaitForAPI = (\<lambda>url timeout. None),
      util_WaitForDevice = (\<lambda>path timeout. None),
      time_Now = 63600000000000000000,
      filepath_Join = (\<lambda>dir name. dir @ name)\<rparr>"

definition emptyWorld :: world where
  "emptyWorld = \<lparr>volumes = Map.empty, calls = [], scheduled = []\<rparr>"

definition simReplica :: "string \<Rightarrow> string \<Rightarrow> ReplicaInfo" where
  "simReplica n a =
     \<lparr>ID = ''id-'' @ n, Type = InstanceTypeReplica, Name = n, HostID = ''host-1'',
      Address = a, Running = True, BadTimestamp = 0\<rparr>"

definition vol1 :: VolumeInfo where
  "vol1 =
     \<lparr>vName = ''vol1'', Size = 1073741824, vLonghornImage = ''longhornio/engine:v1'',
      Replicas = [(''r1'', simReplica ''r1'' ''10.0.0.5''), (''r2'', simReplica ''r2'' ''10.0.0.7'')]\<rparr>"

definition vol0 :: VolumeInfo where
  "vol0 =
     \<lparr>vName = ''vol0'', Size = 0, vLonghornImage = ''longhornio/engine:v1'', Replicas = []\<rparr>"

definition simWorld :: world where
  "simWorld = \<lparr>volumes = [''vol1'' \<mapsto> vol1, ''vol0'' \<mapsto> vol0], calls = [], scheduled = []\<rparr>"

text \<open>
  A start request for this engine whose payload is not empty and does not parse.
\<close>

definition malformedItem :: ScheduleItem where
  "malformedItem =
     \<lparr>Action = ScheduleActionStartInstance,
      Instance = \<lparr>sID = ''id-r1'', sType = InstanceTypeReplica, sHostID = ''host-1''\<rparr>,
      sData = \<lparr>Orchestrator = ''docker'', Data = Malformed ''invalid character''\<rparr>\<rparr>"

section \<open>Properties\<close>

subsection \<open>What the handlers do to the Container Runtime\<close>

lemma startInstance_Inr_calls:
  "startInstance d cid t w = (Inr inst, w') \<Longrightarrow>
   w' = w\<lparr>calls := calls w @ [Start cid, Inspect cid]\<rparr>"
  by (auto simp: startInstance_def ContainerStart_def generateInstanceInfo_def
        ContainerInspect_def split: option.splits sum.splits prod.splits)

lemma startInstance_Inl_calls:
  "startInstance d cid t w = (Inl e, w') \<Longrightarrow>
   w' = w\<lparr>calls := calls w @ [Start cid]\<rparr> \<or>
   w' = w\<lparr>calls := calls w @ [Start cid, Inspect cid]\<rparr>"
  by (auto simp: startInstance_def ContainerStart_def generateInstanceInfo_def
        ContainerInspect_def split: option.splits sum.splits prod.splits)

lemma removeInstance_world:
  "snd (removeInstance d cid t w) = w\<lparr>calls := calls w @ [Remove cid True]\<rparr>"
  by (simp add: removeInstance_def ContainerRemove_def split: option.splits)

text \<open>
  Claim C2. Whenever the runtime accepts the create call of \<open>createController\<close> and
  returns the container \<open>cid\<close>, and the start step \<open>startInstance\<close> that follows fails with
  \<open>err\<close> (the start call is refused, or the inspection after it is), the handler issues
  \<open>Remove cid\<close> (with its volumes) as its next and last runtime call and returns \<open>err\<close>
  wrapped as "fail to start controller container", whatever the runtime answers to the
  remove. The same holds for \<open>createReplica\<close>, with "fail to start replica container".
\<close>

theorem start_failure_removes_container:
  "(cli_ContainerCreate d (calls w) (controllerConfig data) controllerHostConfig (InstanceName data)
      = Inr cid \<longrightarrow>
    startInstance d cid InstanceTypeController
      (w\<lparr>calls := calls w @ [Create (controllerConfig data) controllerHostConfig (InstanceName data)]\<rparr>)
      = (Inl err, w2) \<longrightarrow>
    createController d data w =
      (Inl (Wrapped err ''fail to start controller container''),
       w2\<lparr>calls := calls w2 @ [Remove cid True]\<rparr>))
   \<and>
   (cli_ContainerCreate d (calls w) (replicaConfig data) replicaHostConfig (InstanceName data)
      = Inr cid \<longrightarrow>
    startInstance d cid InstanceTypeReplica
      (w\<lparr>calls := calls w @ [Create (replicaConfig data) replicaHostConfig (InstanceName data)]\<rparr>)
      = (Inl err, w2) \<longrightarrow>
    createReplica d data w =
      (Inl (Wrapped err ''fail to start replica container''),
       w2\<lparr>calls := calls w2 @ [Remove cid True]\<rparr>))"
  unfolding createController_def createReplica_def ContainerCreate_def
  by (simp add: case_prod_unfold removeInstance_world)

text \<open>
  A run of each: a controller whose start call is refused, and a replica whose
  inspection after the start fails. The logs end with the remove of the new container.
\<close>

theorem start_failure_removes_container_witness:
  "createController (simOrc\<lparr>cli_ContainerStart := (\<lambda>log cid. Some (External ''no such image''))\<rparr>)
     \<lparr>InstanceName = ''c1'', VolumeName = ''vol1'', VolumeSize = [],
      LonghornImage = ''longhornio/engine:v1'', ReplicaAddresses = [''tcp://10.0.0.5:9502'']\<rparr>
     emptyWorld
   = (Inl (Wrapped (Wrapped (External ''no such image'') ''fail to start instance '%v' type %v'')
              ''fail to start controller container''),
      emptyWorld\<lparr>calls :=
        [Create \<lparr>ExposedPorts = [], cImage = ''longhornio/engine:v1'', Volumes = [],
                 Cmd = [''launch'', ''controller'', ''--listen'', ''0.0.0.0:9501'',
                        ''--frontend'', ''tgt'', ''--replica'', ''tcp://10.0.0.5:9502'', ''vol1'']\<rparr>
                controllerHostConfig ''c1'',
         Start ''id-c1'', Remove ''id-c1'' True]\<rparr>)
   \<and>
   createReplica (simOrc\<lparr>cli_ContainerInspect := (\<lambda>log cid. Inl (External ''gone''))\<rparr>)
     \<lparr>InstanceName = ''r1'', VolumeName = ''vol1'', VolumeSize = ''1073741824'',
      LonghornImage = ''longhornio/engine:v1'', ReplicaAddresses = []\<rparr>
     emptyWorld
   = (Inl (Wrapped (Wrapped (External ''gone'') ''fail to inspect replica container'')
              ''fail to start replica container''),
      emptyWorld\<lparr>calls :=
        [Create \<lparr>ExposedPorts = [''9502-9504''], cImage = ''longhornio/engine:v1'',
                 Volumes = [''/volume''],
                 Cmd = [''launch'', ''replica'', ''--listen'', ''0.0.0.0:9502'',
                        ''--size'', ''1073741824'', ''/volume'']\<rparr>
                replicaHostConfig ''r1'',
         Start ''id-r1'', Inspect ''id-r1'', Remove ''id-r1'' True]\<rparr>)"
proof -
  let ?d1 = "simOrc\<lparr>cli_ContainerStart := (\<lambda>log cid. Some (External ''no such image''))\<rparr>"
  let ?d2 = "simOrc\<lparr>cli_ContainerInspect := (\<lambda>log cid. Inl (External ''gone''))\<rparr>"
  let ?c = "\<lparr>InstanceName = ''c1'', VolumeName = ''vol1'', VolumeSize = [],
      LonghornImage = ''longhornio/engine:v1'', ReplicaAddresses = [''tcp://10.0.0.5:9502'']\<rparr>"
  let ?r = "\<lparr>InstanceName = ''r1'', VolumeName = ''vol1'', VolumeSize = ''1073741824'',
      LonghornImage = ''longhornio/engine:v1'', ReplicaAddresses = []\<rparr>"
  let ?e1 = "Wrapped (External ''no such image'') ''fail to start instance '%v' type %v''"
  let ?e2 = "Wrapped (External ''gone'') ''fail to inspect replica container''"
  let ?w1 = "emptyWorld\<lparr>calls :=
               [Create (controllerConfig ?c) controllerHostConfig ''c1'', Start ''id-c1'']\<rparr>"
  let ?w2 = "emptyWorld\<lparr>calls :=
               [Create (replicaConfig ?r) replicaHostConfig ''r1'', Start ''id-r1'',
                Inspect ''id-r1'']\<rparr>"
  note a = start_failure_removes_container
      [of ?d1 emptyWorld ?c "''id-c1''" ?e1 ?w1, THEN conjunct1]
  note b = start_failure_removes_container
      [of ?d2 emptyWorld ?r "''id-r1''" ?e2 ?w2, THEN conjunct2]
  have A: "createController ?d1 ?c emptyWorld =
      (Inl (Wrapped ?e1 ''fail to start controller container''),
       ?w1\<lparr>calls := calls ?w1 @ [Remove ''id-c1'' True]\<rparr>)"
    using a by (simp add: simOrc_def emptyWorld_def startInstance_def ContainerStart_def)
  have B: "createReplica ?d2 ?r emptyWorld =
      (Inl (Wrapped ?e2 ''fail to start replica container''),
       ?w2\<lparr>calls := calls ?w2 @ [Remove ''id-r1'' True]\<rparr>)"
    using b by (simp add: simOrc_def emptyWorld_def startInstance_def ContainerStart_def
          generateInstanceInfo_def ContainerInspect_def)
  show ?thesis
    unfolding A B
    by (simp add: emptyWorld_def controllerConfig_def controllerCmd_def replicaConfig_def
          replicaCmd_def)
qed

text \<open>
  Claim C3. Whenever the runtime accepts the create call of \<open>createController\<close>, returning
  the container \<open>cid\<close>, and the start step succeeds, a time-out of the wait for the API
  endpoint, or of the wait for the device after the API answered, makes the handler
  return that error wrapped ("fail to wait for api endpoint", "fail to wait for device"),
  and the runtime calls of the whole run are the create, the start and the inspection:
  no remove and no stop is issued, so the container stays as the start left it.
\<close>

theorem readiness_timeout_leaves_container:
  assumes created: "cli_ContainerCreate d (calls w) (controllerConfig data) controllerHostConfig
                      (InstanceName data) = Inr cid"
    and started: "startInstance d cid InstanceTypeController
                    (w\<lparr>calls := calls w @ [Create (controllerConfig data) controllerHostConfig
                                               (InstanceName data)]\<rparr>) = (Inr inst, w2)"
  shows "(util_WaitForAPI d (''http://'' @ Address inst @ '':9501'' @ ''/v1'') WaitAPITimeout = Some err \<longrightarrow>
          createController d data w =
            (Inl (Wrapped err ''fail to wait for api endpoint at %v''),
             w\<lparr>calls := calls w @ [Create (controllerConfig data) controllerHostConfig
                                       (InstanceName data), Start cid, Inspect cid]\<rparr>))
       \<and> (util_WaitForAPI d (''http://'' @ Address inst @ '':9501'' @ ''/v1'') WaitAPITimeout = None \<longrightarrow>
          util_WaitForDevice d (getDeviceName d (VolumeName data)) WaitDeviceTimeout = Some err \<longrightarrow>
          createController d data w =
            (Inl (Wrapped err ''fail to wait for device''),
             w\<lparr>calls := calls w @ [Create (controllerConfig data) controllerHostConfig
                                       (InstanceName data), Start cid, Inspect cid]\<rparr>))"
proof -
  have w2: "w2 = w\<lparr>calls := calls w @ [Create (controllerConfig data) controllerHostConfig
                                       (InstanceName data), Start cid, Inspect cid]\<rparr>"
    using startInstance_Inr_calls [OF started] by simp
  show ?thesis
    unfolding createController_def ContainerCreate_def
    using created started w2 by (simp add: Let_def)
qed

text \<open>The device probe times out on the simulated deployment.\<close>

theorem readiness_timeout_leaves_container_witness:
  "createController (simOrc\<lparr>util_WaitForDevice := (\<lambda>path timeout. Some (External ''timeout''))\<rparr>)
     \<lparr>InstanceName = ''c1'', VolumeName = ''vol1'', VolumeSize = [],
      LonghornImage = ''longhornio/engine:v1'', ReplicaAddresses = [''tcp://10.0.0.5:9502'']\<rparr>
     emptyWorld
   = (Inl (Wrapped (External ''timeout'') ''fail to wait for device''),
      emptyWorld\<lparr>calls :=
        [Create \<lparr>ExposedPorts = [], cImage = ''longhornio/engine:v1'', Volumes = [],
                 Cmd = [''launch'', ''controller'', ''--listen'', ''0.0.0.0:9501'',
                        ''--frontend'', ''tgt'', ''--replica'', ''tcp://10.0.0.5:9502'', ''vol1'']\<rparr>
                controllerHostConfig ''c1'',
         Start ''id-c1'', Inspect ''id-c1'']\<rparr>)"
proof -
  let ?d = "simOrc\<lparr>util_WaitForDevice := (\<lambda>path timeout. Some (External ''timeout''))\<rparr>"
  let ?c = "\<lparr>InstanceName = ''c1'', VolumeName = ''vol1'', VolumeSize = [],
      LonghornImage = ''longhornio/engine:v1'', ReplicaAddresses = [''tcp://10.0.0.5:9502'']\<rparr>"
  let ?i = "\<lparr>ID = ''id-c1'', Type = InstanceTypeController, Name = ''c1'', HostID = ''host-1'',
             Address = ''10.0.0.6'', Running = True\<rparr>"
  let ?w2 = "emptyWorld\<lparr>calls :=
               [Create (controllerConfig ?c) controllerHostConfig ''c1'', Start ''id-c1'',
                Inspect ''id-c1'']\<rparr>"
  have c: "cli_ContainerCreate ?d (calls emptyWorld) (controllerConfig ?c) controllerHostConfig
             (InstanceName ?c) = Inr ''id-c1''"
    by (simp add: simOrc_def)
  have s: "startInstance ?d ''id-c1'' InstanceTypeController
             (emptyWorld\<lparr>calls := calls emptyWorld @ [Create (controllerConfig ?c) controllerHostConfig
                                               (InstanceName ?c)]\<rparr>) = (Inr ?i, ?w2)"
    by (simp add: simOrc_def simHost_def emptyWorld_def startInstance_def ContainerStart_def
          generateInstanceInfo_def ContainerInspect_def GetCurrentHostID_def
          strings_TrimPrefix_def)
  note t = readiness_timeout_leaves_container [OF c s, of "External ''timeout''", THEN conjunct2]
  have "createController ?d ?c emptyWorld =
      (Inl (Wrapped (External ''timeout'') ''fail to wait for device''), ?w2)"
    using t by (simp add: simOrc_def emptyWorld_def)
  then show ?thesis
    by (simp add: emptyWorld_def controllerConfig_def controllerCmd_def)
qed

subsection \<open>Volume records\<close>

text \<open>
  Claim C4. \<open>UpdateVolume\<close> on a volume whose name has no record in the Metadata Store
  (never created, or deleted) fails with the error "cannot update volume ... because it
  doesn't exists" (the NotFound of the spec) and leaves the world as it was: nothing is
  written. More generally it does so whenever the lookup returns an error.
\<close>

theorem UpdateVolume_missing_fails:
  "(volumes w (vName volume) = None \<longrightarrow>
      UpdateVolume d volume w =
        (Some (Errorf ''cannot update volume %v because it doesn't exists %+v''), w))
   \<and> (getVolume d (vName volume) w = Inl err \<longrightarrow>
      UpdateVolume d volume w =
        (Some (Errorf ''cannot update volume %v because it doesn't exists %+v''), w))"
  by (simp add: UpdateVolume_def getVolume_def split: option.splits)

theorem UpdateVolume_missing_fails_witness:
  "UpdateVolume simOrc vol1 emptyWorld =
     (Some (Errorf ''cannot update volume %v because it doesn't exists %+v''), emptyWorld)
   \<and> volumes emptyWorld ''vol1'' = None"
  using UpdateVolume_missing_fails [of emptyWorld vol1 simOrc, THEN conjunct1]
  by (simp add: emptyWorld_def vol1_def)

text \<open>
  Claim C5, as stated, fails: \<open>vol0\<close> is stored, the read of its key fails, and
  \<open>CreateVolume\<close> of a record of that name with another size succeeds, returning the new
  record and storing it over the old one.
\<close>

theorem CreateVolume_unread_duplicate_counterexample:
  "volumes simWorld ''vol0'' = Some vol0
   \<and> CreateVolume (simOrc\<lparr>kapi_Get := (\<lambda>key. Some (External ''context deadline exceeded''))\<rparr>)
        (vol0\<lparr>Size := 1073741824\<rparr>) simWorld
     = (Inr (vol0\<lparr>Size := 1073741824\<rparr>),
        simWorld\<lparr>volumes := (volumes simWorld)(''vol0'' \<mapsto> vol0\<lparr>Size := 1073741824\<rparr>)\<rparr>)
   \<and> vol0\<lparr>Size := 1073741824\<rparr> \<noteq> vol0"
  by (simp add: CreateVolume_def getVolume_def setVolume_def simOrc_def simWorld_def vol0_def)

text \<open>
  Claim C5, amended. If a record is stored under \<open>v\<close>'s name and the Metadata Store read of
  it succeeds, \<open>CreateVolume v\<close> fails with "volume ... already exists" (the AlreadyExists
  of the spec) and the world, so the stored record, is unchanged. If no record is stored
  under that name and the Metadata Store write succeeds, it stores \<open>v\<close> itself under its
  name and returns \<open>v\<close>, and \<open>GetVolume\<close> of that name in the resulting world, when its read
  succeeds, returns \<open>v\<close>.
\<close>

theorem CreateVolume_duplicate_check:
  "(volumes w (vName v) \<noteq> None \<longrightarrow> kapi_Get d (vName v) = None \<longrightarrow>
      CreateVolume d v w = (Inl (Errorf ''volume %v already exists %+v''), w))
   \<and> (volumes w (vName v) = None \<longrightarrow> kapi_Set d (vName v) = None \<longrightarrow>
      CreateVolume d v w = (Inr v, w\<lparr>volumes := (volumes w)(vName v \<mapsto> v)\<rparr>)
      \<and> (kapi_Get d (vName v) = None \<longrightarrow>
           GetVolume d (vName v) (snd (CreateVolume d v w)) = Inr (Some v)))"
  by (auto simp: CreateVolume_def GetVolume_def getVolume_def setVolume_def
        split: option.splits)

text \<open>Creating \<open>vol1\<close> again where it is stored, and creating it in the empty world.\<close>

theorem CreateVolume_duplicate_check_witness:
  "CreateVolume simOrc (vol1\<lparr>Size := 5\<rparr>) simWorld
     = (Inl (Errorf ''volume %v already exists %+v''), simWorld)
   \<and> volumes simWorld ''vol1'' = Some vol1
   \<and> CreateVolume simOrc vol1 emptyWorld = (Inr vol1, emptyWorld\<lparr>volumes := [''vol1'' \<mapsto> vol1]\<rparr>)
   \<and> GetVolume simOrc ''vol1'' (snd (CreateVolume simOrc vol1 emptyWorld)) = Inr (Some vol1)"
proof -
  have n: "vName (vol1\<lparr>Size := 5\<rparr>) = ''vol1''" "vName vol1 = ''vol1''"
    by (simp_all add: vol1_def)
  have g: "kapi_Get simOrc (vName (vol1\<lparr>Size := 5\<rparr>)) = None" "kapi_Get simOrc (vName vol1) = None"
    and s: "kapi_Set simOrc (vName vol1) = None"
    by (simp_all add: simOrc_def)
  have stored: "volumes simWorld ''vol1'' = Some vol1"
    by (simp add: simWorld_def)
  have absent: "volumes emptyWorld (vName vol1) = None"
    by (simp add: emptyWorld_def)
  have A: "CreateVolume simOrc (vol1\<lparr>Size := 5\<rparr>) simWorld
             = (Inl (Errorf ''volume %v already exists %+v''), simWorld)"
    using CreateVolume_duplicate_check
            [where d = simOrc and v = "vol1\<lparr>Size := 5\<rparr>" and w = simWorld, THEN conjunct1]
          stored g(1)
    by (simp add: n)
  have B: "CreateVolume simOrc vol1 emptyWorld = (Inr vol1, emptyWorld\<lparr>volumes := [''vol1'' \<mapsto> vol1]\<rparr>)
           \<and> GetVolume simOrc ''vol1'' (snd (CreateVolume simOrc vol1 emptyWorld)) = Inr (Some vol1)"
    using CreateVolume_duplicate_check
            [where d = simOrc and v = vol1 and w = emptyWorld, THEN conjunct2]
          absent s g(2)
    by (auto simp: n emptyWorld_def)
  show ?thesis
    using A B stored by blast
qed

text \<open>
  Claim C10. If the lookup that \<open>CreateVolume\<close> makes returns an error, the error is
  dropped and \<open>CreateVolume\<close> goes on to \<open>setVolume\<close>: its result is that of the write, and
  when the write succeeds the new record is stored (over a record already there, if
  any) and returned. The "already exists" failure occurs exactly when the lookup
  succeeds and returns a record.
\<close>

theorem CreateVolume_ignores_read_error:
  "(getVolume d (vName v) w = Inl err \<longrightarrow>
      CreateVolume d v w =
        (case setVolume d v w of
           (Some err', w') \<Rightarrow> (Inl (Wrapped err' ''fail to create new volume metadata''), w')
         | (None, w') \<Rightarrow> (Inr v, w')))
   \<and> (getVolume d (vName v) w = Inl err \<longrightarrow> kapi_Set d (vName v) = None \<longrightarrow>
      CreateVolume d v w = (Inr v, w\<lparr>volumes := (volumes w)(vName v \<mapsto> v)\<rparr>))
   \<and> ((fst (CreateVolume d v w) = Inl (Errorf ''volume %v already exists %+v''))
        = (\<exists>old. getVolume d (vName v) w = Inr (Some old)))"
  by (auto simp: CreateVolume_def setVolume_def split: option.splits sum.splits prod.splits)

text \<open>
  The store holds \<open>vol1\<close> but the read fails: \<open>CreateVolume\<close> overwrites the record.
\<close>

theorem CreateVolume_ignores_read_error_witness:
  "CreateVolume (simOrc\<lparr>kapi_Get := (\<lambda>key. Some (External ''etcd cluster is unavailable''))\<rparr>)
     (vol1\<lparr>Size := 5\<rparr>) simWorld
   = (Inr (vol1\<lparr>Size := 5\<rparr>), simWorld\<lparr>volumes := (volumes simWorld)(''vol1'' \<mapsto> vol1\<lparr>Size := 5\<rparr>)\<rparr>)
   \<and> volumes simWorld ''vol1'' = Some vol1"
proof -
  let ?d = "simOrc\<lparr>kapi_Get := (\<lambda>key. Some (External ''etcd cluster is unavailable''))\<rparr>"
  have n: "vName (vol1\<lparr>Size := 5\<rparr>) = ''vol1''"
    by (simp add: vol1_def)
  have g: "getVolume ?d (vName (vol1\<lparr>Size := 5\<rparr>)) simWorld = Inl (External ''etcd cluster is unavailable'')"
    by (simp add: getVolume_def)
  have s: "kapi_Set ?d (vName (vol1\<lparr>Size := 5\<rparr>)) = None"
    by (simp add: simOrc_def)
  show ?thesis
    using CreateVolume_ignores_read_error [of ?d "vol1\<lparr>Size := 5\<rparr>" simWorld
        "External ''etcd cluster is unavailable''", THEN conjunct2, THEN conjunct1] g s
    by (simp add: n simWorld_def)
qed

subsection \<open>The calls and requests of a run\<close>

lemma startInstance_appends:
  "\<exists>cs. snd (startInstance d cid t w) = w\<lparr>calls := calls w @ Start cid # cs\<rparr>
        \<and> set cs \<subseteq> {Inspect cid}"
  by (auto simp: startInstance_def ContainerStart_def generateInstanceInfo_def
        ContainerInspect_def split: option.splits sum.splits prod.splits)

lemma stopInstance_appends:
  "\<exists>cs. snd (stopInstance d cid t w) = w\<lparr>calls := calls w @ Stop cid ContainerStopTimeout # cs\<rparr>
        \<and> set cs \<subseteq> {Inspect cid}"
  by (auto simp: stopInstance_def ContainerStop_def generateInstanceInfo_def
        ContainerInspect_def split: option.splits sum.splits prod.splits)

lemma createController_appends:
  "\<exists>cs. snd (createController d data w)
           = w\<lparr>calls := calls w @ Create (controllerConfig data) controllerHostConfig
                                     (InstanceName data) # cs\<rparr>
        \<and> (\<forall>config hostConfig n. Create config hostConfig n \<notin> set cs)"
proof (cases "cli_ContainerCreate d (calls w) (controllerConfig data) controllerHostConfig
                (InstanceName data)")
  case (Inl err)
  then show ?thesis
    by (auto simp: createController_def ContainerCreate_def intro!: exI [of _ "[]"])
next
  case (Inr cid)
  let ?w1 = "w\<lparr>calls := calls w @ [Create (controllerConfig data) controllerHostConfig
                                     (InstanceName data)]\<rparr>"
  obtain cs where cs: "snd (startInstance d cid InstanceTypeController ?w1)
                         = ?w1\<lparr>calls := calls ?w1 @ Start cid # cs\<rparr>" "set cs \<subseteq> {Inspect cid}"
    using startInstance_appends by blast
  obtain r w2 where s: "startInstance d cid InstanceTypeController ?w1 = (r, w2)"
    by (cases "startInstance d cid InstanceTypeController ?w1")
  have w2: "w2 = w\<lparr>calls := calls w @ Create (controllerConfig data) controllerHostConfig
                                     (InstanceName data) # Start cid # cs\<rparr>"
    using cs(1) s by simp
  show ?thesis
  proof (cases r)
    case (Inl err)
    have "snd (createController d data w) = w2\<lparr>calls := calls w2 @ [Remove cid True]\<rparr>"
      using Inr s Inl
      by (simp add: createController_def ContainerCreate_def case_prod_unfold removeInstance_world)
    then have "snd (createController d data w)
           = w\<lparr>calls := calls w @ Create (controllerConfig data) controllerHostConfig
                                     (InstanceName data) # (Start cid # cs @ [Remove cid True])\<rparr>"
      by (simp add: w2)
    moreover have "\<forall>config hostConfig n. Create config hostConfig n \<notin> set (Start cid # cs @ [Remove cid True])"
      using cs(2) by auto
    ultimately show ?thesis by blast
  next
    case (Inr inst)
    have "snd (createController d data w) = w2"
      using \<open>cli_ContainerCreate d (calls w) (controllerConfig data) controllerHostConfig
                (InstanceName data) = Inr cid\<close> s Inr
      by (simp add: createController_def ContainerCreate_def Let_def split: option.splits)
    moreover have "\<forall>config hostConfig n. Create config hostConfig n \<notin> set (Start cid # cs)"
      using cs(2) by auto
    ultimately show ?thesis using w2 by blast
  qed
qed

lemma createReplica_appends:
  "\<exists>cs. snd (createReplica d data w)
           = w\<lparr>calls := calls w @ Create (replicaConfig data) replicaHostConfig
                                     (InstanceName data) # cs\<rparr>
        \<and> (\<forall>config hostConfig n. Create config hostConfig n \<notin> set cs)"
proof (cases "cli_ContainerCreate d (calls w) (replicaConfig data) replicaHostConfig
                (InstanceName data)")
  case (Inl err)
  then show ?thesis
    by (auto simp: createReplica_def ContainerCreate_def intro!: exI [of _ "[]"])
next
  case (Inr cid)
  let ?w1 = "w\<lparr>calls := calls w @ [Create (replicaConfig data) replicaHostConfig
                                     (InstanceName data)]\<rparr>"
  obtain cs where cs: "snd (startInstance d cid InstanceTypeReplica ?w1)
                         = ?w1\<lparr>calls := calls ?w1 @ Start cid # cs\<rparr>" "set cs \<subseteq> {Inspect cid}"
    using startInstance_appends by blast
  obtain r w2 where s: "startInstance d cid InstanceTypeReplica ?w1 = (r, w2)"
    by (cases "startInstance d cid InstanceTypeReplica ?w1")
  have w2: "w2 = w\<lparr>calls := calls w @ Create (replicaConfig data) replicaHostConfig
                                     (InstanceName data) # Start cid # cs\<rparr>"
    using cs(1) s by simp
  show ?thesis
  proof (cases r)
    case (Inl err)
    have "snd (createReplica d data w) = w2\<lparr>calls := calls w2 @ [Remove cid True]\<rparr>"
      using Inr s Inl
      by (simp add: createReplica_def ContainerCreate_def case_prod_unfold removeInstance_world)
    then have "snd (createReplica d data w)
           = w\<lparr>calls := calls w @ Create (replicaConfig data) replicaHostConfig
                                     (InstanceName data) # (Start cid # cs @ [Remove cid True])\<rparr>"
      by (simp add: w2)
    moreover have "\<forall>config hostConfig n. Create config hostConfig n \<notin> set (Start cid # cs @ [Remove cid True])"
      using cs(2) by auto
    ultimately show ?thesis by blast
  next
    case (Inr inst)
    have "snd (createReplica d data w) = w2"
      using \<open>cli_ContainerCreate d (calls w) (replicaConfig data) replicaHostConfig
                (InstanceName data) = Inr cid\<close> s Inr
      by (simp add: createReplica_def ContainerCreate_def)
    moreover have "\<forall>config hostConfig n. Create config hostConfig n \<notin> set (Start cid # cs)"
      using cs(2) by auto
    ultimately show ?thesis using w2 by blast
  qed
qed

lemma ProcessSchedule_appends:
  "\<exists>cs. snd (ProcessSchedule d item w) = w\<lparr>calls := calls w @ cs\<rparr>"
proof -
  have id: "w = w\<lparr>calls := calls w @ []\<rparr>" by simp
  have h1: "\<exists>cs. snd (createController d data w) = w\<lparr>calls := calls w @ cs\<rparr>" for data
    using createController_appends [of d data w] by blast
  have h2: "\<exists>cs. snd (createReplica d data w) = w\<lparr>calls := calls w @ cs\<rparr>" for data
    using createReplica_appends [of d data w] by blast
  have h3: "\<exists>cs. snd (startInstance d cid t w) = w\<lparr>calls := calls w @ cs\<rparr>" for cid t
    using startInstance_appends [of d cid t w] by blast
  have h4: "\<exists>cs. snd (stopInstance d cid t w) = w\<lparr>calls := calls w @ cs\<rparr>" for cid t
    using stopInstance_appends [of d cid t w] by blast
  have h5: "\<exists>cs. snd (removeInstance d cid t w) = w\<lparr>calls := calls w @ cs\<rparr>" for cid t
    using removeInstance_world [of d cid t w] by blast
  have h0: "\<exists>cs. w = w\<lparr>calls := calls w @ cs\<rparr>"
    using id by blast
  show ?thesis
    unfolding ProcessSchedule_def
    using h0 h1 h2 h3 h4 h5
    by (simp split: sum.split ScheduleAction.split)
qed

lemma Schedule_appends:
  "\<exists>cs. snd (Schedule d item w) = w\<lparr>calls := calls w @ cs, scheduled := scheduled w @ [item]\<rparr>"
proof (cases "scheduler d item")
  case ThisHost
  obtain cs where "snd (ProcessSchedule d item (w\<lparr>scheduled := scheduled w @ [item]\<rparr>))
      = (w\<lparr>scheduled := scheduled w @ [item]\<rparr>)\<lparr>calls := calls (w\<lparr>scheduled := scheduled w @ [item]\<rparr>) @ cs\<rparr>"
    using ProcessSchedule_appends by blast
  then have "snd (Schedule d item w) = w\<lparr>calls := calls w @ cs, scheduled := scheduled w @ [item]\<rparr>"
    using ThisHost by (simp add: Schedule_def)
  then show ?thesis by blast
next
  case (Elsewhere res)
  then have "snd (Schedule d item w) = w\<lparr>calls := calls w @ [], scheduled := scheduled w @ [item]\<rparr>"
    by (simp add: Schedule_def)
  then show ?thesis by blast
qed

subsection \<open>The controller command and the replica endpoints\<close>

lemma replica_flags_foldl:
  "foldl (\<lambda>cmd address. cmd @ [''--replica'', address]) cmd0 addresses
     = cmd0 @ concat (map (\<lambda>address. [''--replica'', address]) addresses)"
  by (induction addresses arbitrary: cmd0) simp_all

lemma controllerCmd_shape:
  "controllerCmd data =
     [''launch'', ''controller'', ''--listen'', ''0.0.0.0:9501'', ''--frontend'', ''tgt'']
     @ concat (map (\<lambda>address. [''--replica'', address]) (ReplicaAddresses data))
     @ [VolumeName data]"
  by (simp add: controllerCmd_def replica_flags_foldl)

lemma replica_endpoints_foldl:
  "foldl (\<lambda>data (k, replica).
            data\<lparr>ReplicaAddresses := ReplicaAddresses data
                   @ [''tcp://'' @ Address replica @ '':9502'']\<rparr>) data0 replicas
     = data0\<lparr>ReplicaAddresses := ReplicaAddresses data0
               @ map (\<lambda>(k, replica). ''tcp://'' @ Address replica @ '':9502'') replicas\<rparr>"
  by (induction replicas arbitrary: data0) (simp_all add: case_prod_unfold)

text \<open>
  Claim C8. In every run of \<open>createController\<close> on a payload \<open>data\<close>, the first runtime call
  issued is the create call, the only one of the run, and its command is exactly
  \<open>launch controller --listen 0.0.0.0:9501 --frontend tgt\<close>, then \<open>--replica a\<close> for each
  address \<open>a\<close> of \<open>data.ReplicaAddresses\<close> in order, then \<open>data.VolumeName\<close>. And the payload
  that \<open>prepareCreateController\<close> builds for a volume it finds carries one endpoint
  \<open>tcp://<address>:9502\<close> per replica of its argument, in the order the map is visited.
\<close>

theorem controller_command_and_endpoints:
  "(\<exists>cs. calls (snd (createController d data w))
           = calls w
             @ Create \<lparr>ExposedPorts = [], cImage = LonghornImage data, Volumes = [],
                       Cmd = [''launch'', ''controller'', ''--listen'', ''0.0.0.0:9501'',
                              ''--frontend'', ''tgt'']
                             @ concat (map (\<lambda>address. [''--replica'', address])
                                          (ReplicaAddresses data))
                             @ [VolumeName data]\<rparr>
                      controllerHostConfig (InstanceName data)
             # cs
         \<and> (\<forall>config hostConfig n. Create config hostConfig n \<notin> set cs))
   \<and> (getVolume d volumeName w = Inr (Some volume) \<longrightarrow>
        prepareCreateController d volumeName controllerName replicas w
          = Inr (Some \<lparr>Orchestrator = OrcName,
                       Data = Json \<lparr>InstanceName = controllerName,
                                    VolumeName = volumeName,
                                    VolumeSize = [],
                                    LonghornImage = vLonghornImage volume,
                                    ReplicaAddresses =
                                      map (\<lambda>(k, replica). ''tcp://'' @ Address replica @ '':9502'')
                                          replicas\<rparr>\<rparr>))"
proof (intro conjI impI)
  obtain cs where cs: "snd (createController d data w)
           = w\<lparr>calls := calls w @ Create (controllerConfig data) controllerHostConfig
                                     (InstanceName data) # cs\<rparr>"
      "\<forall>config hostConfig n. Create config hostConfig n \<notin> set cs"
    using createController_appends by blast
  have "calls (snd (createController d data w))
           = calls w @ Create (controllerConfig data) controllerHostConfig (InstanceName data) # cs"
    by (simp add: cs(1))
  then show "\<exists>cs. calls (snd (createController d data w))
           = calls w
             @ Create \<lparr>ExposedPorts = [], cImage = LonghornImage data, Volumes = [],
                       Cmd = [''launch'', ''controller'', ''--listen'', ''0.0.0.0:9501'',
                              ''--frontend'', ''tgt'']
                             @ concat (map (\<lambda>address. [''--replica'', address])
                                          (ReplicaAddresses data))
                             @ [VolumeName data]\<rparr>
                      controllerHostConfig (InstanceName data)
             # cs
         \<and> (\<forall>config hostConfig n. Create config hostConfig n \<notin> set cs)"
    using cs(2) unfolding controllerConfig_def controllerCmd_shape by blast
next
  assume g: "getVolume d volumeName w = Inr (Some volume)"
  show "prepareCreateController d volumeName controllerName replicas w
          = Inr (Some \<lparr>Orchestrator = OrcName,
                       Data = Json \<lparr>InstanceName = controllerName,
                                    VolumeName = volumeName,
                                    VolumeSize = [],
                                    LonghornImage = vLonghornImage volume,
                                    ReplicaAddresses =
                                      map (\<lambda>(k, replica). ''tcp://'' @ Address replica @ '':9502'')
                                          replicas\<rparr>\<rparr>)"
    unfolding prepareCreateController_def json_Marshal_def Let_def replica_endpoints_foldl g
    by simp
qed

text \<open>The payload and the command for \<open>vol1\<close> with replicas at 10.0.0.5 and 10.0.0.7.\<close>

theorem controller_command_and_endpoints_witness:
  "prepareCreateController simOrc ''vol1'' ''c1''
       [(''r1'', simReplica ''r1'' ''10.0.0.5''), (''r2'', simReplica ''r2'' ''10.0.0.7'')] simWorld
     = Inr (Some \<lparr>Orchestrator = ''docker'',
                  Data = Json \<lparr>InstanceName = ''c1'', VolumeName = ''vol1'', VolumeSize = [],
                               LonghornImage = ''longhornio/engine:v1'',
                               ReplicaAddresses = [''tcp://10.0.0.5:9502'', ''tcp://10.0.0.7:9502'']\<rparr>\<rparr>)
   \<and> take 1 (calls (snd (createController simOrc
         \<lparr>InstanceName = ''c1'', VolumeName = ''vol1'', VolumeSize = [],
          LonghornImage = ''longhornio/engine:v1'',
          ReplicaAddresses = [''tcp://10.0.0.5:9502'', ''tcp://10.0.0.7:9502'']\<rparr> emptyWorld)))
     = [Create \<lparr>ExposedPorts = [], cImage = ''longhornio/engine:v1'', Volumes = [],
                Cmd = [''launch'', ''controller'', ''--listen'', ''0.0.0.0:9501'',
                       ''--frontend'', ''tgt'', ''--replica'', ''tcp://10.0.0.5:9502'',
                       ''--replica'', ''tcp://10.0.0.7:9502'', ''vol1'']\<rparr>
               controllerHostConfig ''c1'']"
proof -
  let ?data = "\<lparr>InstanceName = ''c1'', VolumeName = ''vol1'', VolumeSize = [],
          LonghornImage = ''longhornio/engine:v1'',
          ReplicaAddresses = [''tcp://10.0.0.5:9502'', ''tcp://10.0.0.7:9502'']\<rparr>"
  have g: "getVolume simOrc ''vol1'' simWorld = Inr (Some vol1)"
    by (simp add: getVolume_def simOrc_def simWorld_def)
  have "prepareCreateController simOrc ''vol1'' ''c1''
       [(''r1'', simReplica ''r1'' ''10.0.0.5''), (''r2'', simReplica ''r2'' ''10.0.0.7'')] simWorld
     = Inr (Some \<lparr>Orchestrator = ''docker'',
                  Data = Json \<lparr>InstanceName = ''c1'', VolumeName = ''vol1'', VolumeSize = [],
                               LonghornImage = ''longhornio/engine:v1'',
                               ReplicaAddresses = [''tcp://10.0.0.5:9502'', ''tcp://10.0.0.7:9502'']\<rparr>\<rparr>)"
    using controller_command_and_endpoints
      [where d = simOrc and w = simWorld and volumeName = "''vol1''" and volume = vol1
         and controllerName = "''c1''"
         and replicas = "[(''r1'', simReplica ''r1'' ''10.0.0.5''),
                          (''r2'', simReplica ''r2'' ''10.0.0.7'')]",
       THEN conjunct2] g
    by (simp add: OrcName_def vol1_def simReplica_def)
  moreover have "take 1 (calls (snd (createController simOrc ?data emptyWorld)))
     = [Create \<lparr>ExposedPorts = [], cImage = ''longhornio/engine:v1'', Volumes = [],
                Cmd = [''launch'', ''controller'', ''--listen'', ''0.0.0.0:9501'',
                       ''--frontend'', ''tgt'', ''--replica'', ''tcp://10.0.0.5:9502'',
                       ''--replica'', ''tcp://10.0.0.7:9502'', ''vol1'']\<rparr>
               controllerHostConfig ''c1'']"
    using controller_command_and_endpoints
      [where d = simOrc and data = ?data and w = emptyWorld, THEN conjunct1]
    by (auto simp: emptyWorld_def)
  ultimately show ?thesis by blast
qed

subsection \<open>Who executes a creation\<close>

text \<open>
  Claim C9. Whenever \<open>CreateController\<close> has a payload to send, the request it hands to the
  Scheduler, exactly one, has \<open>HostID\<close> equal to the UUID of the current host; whenever
  \<open>CreateReplica\<close> has a payload to send, its one request has the empty \<open>HostID\<close>. When
  there is no payload, neither hands over a request: the world is unchanged.
\<close>

theorem schedule_request_host:
  "(prepareCreateController d volumeName controllerName replicas w = Inr (Some data) \<longrightarrow>
      scheduled (snd (CreateController d volumeName controllerName replicas w))
        = scheduled w
          @ [\<lparr>Action = ScheduleActionCreateController,
               Instance = \<lparr>sID = controllerName, sType = InstanceTypeController,
                           sHostID = UUID (currentHost d)\<rparr>,
               sData = data\<rparr>])
   \<and> ((\<forall>data. prepareCreateController d volumeName controllerName replicas w \<noteq> Inr (Some data)) \<longrightarrow>
      snd (CreateController d volumeName controllerName replicas w) = w)
   \<and> (prepareCreateReplica d volumeName replicaName w = Inr (Some data') \<longrightarrow>
      scheduled (snd (CreateReplica d volumeName replicaName w))
        = scheduled w
          @ [\<lparr>Action = ScheduleActionCreateReplica,
               Instance = \<lparr>sID = replicaName, sType = InstanceTypeReplica, sHostID = []\<rparr>,
               sData = data'\<rparr>])
   \<and> ((\<forall>data. prepareCreateReplica d volumeName replicaName w \<noteq> Inr (Some data)) \<longrightarrow>
      snd (CreateReplica d volumeName replicaName w) = w)"
proof (intro conjI impI)
  assume p: "prepareCreateController d volumeName controllerName replicas w = Inr (Some data)"
  let ?item = "\<lparr>Action = ScheduleActionCreateController,
               Instance = \<lparr>sID = controllerName, sType = InstanceTypeController,
                           sHostID = UUID (currentHost d)\<rparr>,
               sData = data\<rparr>"
  obtain cs where "snd (Schedule d ?item w)
      = w\<lparr>calls := calls w @ cs, scheduled := scheduled w @ [?item]\<rparr>"
    using Schedule_appends by blast
  then show "scheduled (snd (CreateController d volumeName controllerName replicas w))
        = scheduled w @ [?item]"
    using p by (cases "Schedule d ?item w")
      (auto simp: CreateController_def GetCurrentHostID_def Let_def split: sum.split)
next
  assume "\<forall>data. prepareCreateController d volumeName controllerName replicas w \<noteq> Inr (Some data)"
  then show "snd (CreateController d volumeName controllerName replicas w) = w"
    by (simp add: CreateController_def split: sum.split option.split)
next
  assume p: "prepareCreateReplica d volumeName replicaName w = Inr (Some data')"
  let ?item = "\<lparr>Action = ScheduleActionCreateReplica,
               Instance = \<lparr>sID = replicaName, sType = InstanceTypeReplica, sHostID = []\<rparr>,
               sData = data'\<rparr>"
  obtain cs where "snd (Schedule d ?item w)
      = w\<lparr>calls := calls w @ cs, scheduled := scheduled w @ [?item]\<rparr>"
    using Schedule_appends by blast
  then show "scheduled (snd (CreateReplica d volumeName replicaName w))
        = scheduled w @ [?item]"
    using p by (cases "Schedule d ?item w")
      (auto simp: CreateReplica_def Let_def split: sum.split)
next
  assume "\<forall>data. prepareCreateReplica d volumeName replicaName w \<noteq> Inr (Some data)"
  then show "snd (CreateReplica d volumeName replicaName w) = w"
    by (simp add: CreateReplica_def split: sum.split option.split)
qed

text \<open>Both creations for the stored \<open>vol1\<close>, and for \<open>vol2\<close>, which is not stored.\<close>

theorem schedule_request_host_witness:
  "scheduled (snd (CreateController simOrc ''vol1'' ''c1'' [(''r1'', simReplica ''r1'' ''10.0.0.5'')] simWorld))
     = [\<lparr>Action = ScheduleActionCreateController,
          Instance = \<lparr>sID = ''c1'', sType = InstanceTypeController, sHostID = ''host-1''\<rparr>,
          sData = \<lparr>Orchestrator = ''docker'',
                    Data = Json \<lparr>InstanceName = ''c1'', VolumeName = ''vol1'', VolumeSize = [],
                                 LonghornImage = ''longhornio/engine:v1'',
                                 ReplicaAddresses = [''tcp://10.0.0.5:9502'']\<rparr>\<rparr>\<rparr>]
   \<and> scheduled (snd (CreateReplica simOrc ''vol1'' ''r3'' simWorld))
     = [\<lparr>Action = ScheduleActionCreateReplica,
          Instance = \<lparr>sID = ''r3'', sType = InstanceTypeReplica, sHostID = []\<rparr>,
          sData = \<lparr>Orchestrator = ''docker'',
                    Data = Json \<lparr>InstanceName = ''r3'', VolumeName = ''vol1'',
                                 VolumeSize = ''1073741824'',
                                 LonghornImage = ''longhornio/engine:v1'',
                                 ReplicaAddresses = []\<rparr>\<rparr>\<rparr>]
   \<and> snd (CreateController simOrc ''vol2'' ''c1'' [] simWorld) = simWorld
   \<and> snd (CreateReplica simOrc ''vol2'' ''r3'' simWorld) = simWorld"
proof -
  let ?cd = "\<lparr>Orchestrator = ''docker'',
                    Data = Json \<lparr>InstanceName = ''c1'', VolumeName = ''vol1'', VolumeSize = [],
                                 LonghornImage = ''longhornio/engine:v1'',
                                 ReplicaAddresses = [''tcp://10.0.0.5:9502'']\<rparr>\<rparr>"
  let ?rd = "\<lparr>Orchestrator = ''docker'',
                    Data = Json \<lparr>InstanceName = ''r3'', VolumeName = ''vol1'',
                                 VolumeSize = ''1073741824'',
                                 LonghornImage = ''longhornio/engine:v1'',
                                 ReplicaAddresses = []\<rparr>\<rparr>"
  have g: "getVolume simOrc ''vol1'' simWorld = Inr (Some vol1)"
    by (simp add: getVolume_def simOrc_def simWorld_def)
  have g2: "getVolume simOrc ''vol2'' simWorld = Inl (External ''NotFound'')"
    by (simp add: getVolume_def simOrc_def simWorld_def)
  have size: "FormatInt 1073741824 = ''1073741824''"
    by (simp add: FormatInt_def FormatUint.simps digit_char_def)
  have pc: "prepareCreateController simOrc ''vol1'' ''c1'' [(''r1'', simReplica ''r1'' ''10.0.0.5'')]
              simWorld = Inr (Some ?cd)"
    by (simp add: prepareCreateController_def g json_Marshal_def OrcName_def vol1_def
          simReplica_def)
  have pr: "prepareCreateReplica simOrc ''vol1'' ''r3'' simWorld = Inr (Some ?rd)"
    by (simp add: prepareCreateReplica_def g json_Marshal_def OrcName_def vol1_def size)
  have nc: "\<forall>data. prepareCreateController simOrc ''vol2'' ''c1'' [] simWorld \<noteq> Inr (Some data)"
    by (simp add: prepareCreateController_def g2)
  have nr: "\<forall>data. prepareCreateReplica simOrc ''vol2'' ''r3'' simWorld \<noteq> Inr (Some data)"
    by (simp add: prepareCreateReplica_def g2)
  have h: "UUID (currentHost simOrc) = ''host-1''" "scheduled simWorld = []"
    by (simp_all add: simOrc_def simHost_def simWorld_def)
  show ?thesis
    using schedule_request_host
        [where d = simOrc and w = simWorld and volumeName = "''vol1''"
           and controllerName = "''c1''" and replicaName = "''r3''"
           and replicas = "[(''r1'', simReplica ''r1'' ''10.0.0.5'')]"
           and data = ?cd and data' = ?rd]
      schedule_request_host
        [where d = simOrc and w = simWorld and volumeName = "''vol2''"
           and controllerName = "''c1''" and replicaName = "''r3''"
           and replicas = "[]" and data = ?cd and data' = ?rd]
      pc pr nc nr h
    by simp
qed

subsection \<open>Marking a replica bad\<close>

lemma markReplicas_first_match:
  "\<forall>(k', r') \<in> set before. Name r' \<noteq> n \<Longrightarrow> Name r = n \<Longrightarrow>
   markReplicas n t (before @ (k, r) # after) = before @ (k, r\<lparr>BadTimestamp := t\<rparr>) # after"
  by (induction before) auto

lemma first_match_exists:
  "\<exists>(k, r) \<in> set reps. Name r = n \<Longrightarrow>
   \<exists>before k r after. reps = before @ (k, r) # after \<and> Name r = n
      \<and> (\<forall>(k', r') \<in> set before. Name r' \<noteq> n)"
proof -
  assume "\<exists>(k, r) \<in> set reps. Name r = n"
  then have "\<exists>e \<in> set reps. Name (snd e) = n"
    by force
  then obtain before e after where
      "reps = before @ e # after" "Name (snd e) = n" "\<forall>y \<in> set before. Name (snd y) \<noteq> n"
    using split_list_first_prop [of reps "\<lambda>e. Name (snd e) = n"] by blast
  then have "reps = before @ (fst e, snd e) # after \<and> Name (snd e) = n
      \<and> (\<forall>(k', r') \<in> set before. Name r' \<noteq> n)"
    by auto
  then show ?thesis by blast
qed

lemma markReplicas_no_match:
  "\<forall>(k', r') \<in> set reps. Name r' \<noteq> n \<Longrightarrow> markReplicas n t reps = reps"
  by (induction reps) auto

text \<open>
  Claim C6. Let \<open>v\<close> be the volume stored under its name in a store that answers, and let
  \<open>(k, r)\<close> be the first entry of \<open>v.Replicas\<close>, in the order the loop visits the map, whose
  \<open>Name\<close> is that of the replica argument (the entry with that name, when replica names
  are unique as in the data model; such a first entry exists as soon as some entry has
  the name). Then \<open>MarkBadReplica (vName v) replica\<close> succeeds and
  stores under that name the volume \<open>v\<close> with the entry \<open>(k, r)\<close> replaced by \<open>r\<close> carrying
  \<open>BadTimestamp\<close> equal to the clock reading of the call; every other entry and every other
  field is as before. With a clock that reads a non-zero time not earlier than \<open>t0\<close>, the
  time before the call, the time stamp is non-zero and at least \<open>t0\<close>.
\<close>

theorem MarkBadReplica_stamps_entry:
  assumes stored: "volumes w (vName v) = Some v"
    and reachable: "kapi_Get d (vName v) = None" "kapi_Set d (vName v) = None"
    and entry: "Replicas v = before @ (k, r) # after" "Name r = Name replica"
    and first: "\<forall>(k', r') \<in> set before. Name r' \<noteq> Name replica"
    and clock: "t0 \<le> time_Now d" "time_Now d \<noteq> 0"
  shows "\<exists>r'. MarkBadReplica d (vName v) replica w
               = (None, w\<lparr>volumes := (volumes w)(vName v \<mapsto>
                                v\<lparr>Replicas := before @ (k, r') # after\<rparr>)\<rparr>)
             \<and> r' = r\<lparr>BadTimestamp := time_Now d\<rparr>
             \<and> BadTimestamp r' \<noteq> 0 \<and> t0 \<le> BadTimestamp r'"
proof -
  have g: "getVolume d (vName v) w = Inr (Some v)"
    using stored reachable(1) by (simp add: getVolume_def)
  have m: "markReplicas (Name replica) (time_Now d) (Replicas v)
             = before @ (k, r\<lparr>BadTimestamp := time_Now d\<rparr>) # after"
    using markReplicas_first_match [OF first entry(2)] entry(1) by simp
  have "MarkBadReplica d (vName v) replica w
          = (None, w\<lparr>volumes := (volumes w)(vName v \<mapsto>
                        v\<lparr>Replicas := before @ (k, r\<lparr>BadTimestamp := time_Now d\<rparr>) # after\<rparr>)\<rparr>)"
    using g reachable(2)
    by (simp add: MarkBadReplica_def UpdateVolume_def setVolume_def m)
  then show ?thesis
    using clock by simp
qed

text \<open>Marking \<open>r2\<close> of \<open>vol1\<close>: \<open>r1\<close> keeps its zero time stamp.\<close>

theorem MarkBadReplica_stamps_entry_witness:
  "MarkBadReplica simOrc ''vol1'' (simReplica ''r2'' []) simWorld
     = (None, simWorld\<lparr>volumes := (volumes simWorld)(''vol1'' \<mapsto>
          vol1\<lparr>Replicas := [(''r1'', simReplica ''r1'' ''10.0.0.5''),
                             (''r2'', (simReplica ''r2'' ''10.0.0.7'')
                                        \<lparr>BadTimestamp := 63600000000000000000\<rparr>)]\<rparr>)\<rparr>)"
proof -
  have a: "volumes simWorld (vName vol1) = Some vol1"
    by (simp add: simWorld_def vol1_def)
  have b: "kapi_Get simOrc (vName vol1) = None" "kapi_Set simOrc (vName vol1) = None"
    by (simp_all add: simOrc_def)
  have c: "Replicas vol1 = [(''r1'', simReplica ''r1'' ''10.0.0.5'')]
             @ (''r2'', simReplica ''r2'' ''10.0.0.7'') # []"
    by (simp add: vol1_def)
  have e: "Name (simReplica ''r2'' ''10.0.0.7'') = Name (simReplica ''r2'' [])"
    by (simp add: simReplica_def)
  have f: "\<forall>(k', r') \<in> set [(''r1'', simReplica ''r1'' ''10.0.0.5'')].
             Name r' \<noteq> Name (simReplica ''r2'' [])"
    by (simp add: simReplica_def)
  have t: "(63000000000000000000::int) \<le> time_Now simOrc" "time_Now simOrc \<noteq> 0"
    by (simp_all add: simOrc_def)
  have n: "vName vol1 = ''vol1''" "time_Now simOrc = 63600000000000000000"
    by (simp_all add: vol1_def simOrc_def)
  show ?thesis
    using MarkBadReplica_stamps_entry [OF a b c e f t] by (simp add: n)
qed

subsection \<open>The checks of the local executor\<close>

text \<open>
  Claim C7, as stated, fails: a request with the right orchestrator tag, a non-empty
  instance ID and the known action "start instance" is not dispatched when its payload
  does not parse. \<open>ProcessSchedule\<close> returns the parse error at once and issues no runtime
  call, where the handler \<open>startInstance\<close> would have issued a start and an inspection.
\<close>

theorem ProcessSchedule_counterexample:
  "Orchestrator (sData malformedItem) = OrcName
   \<and> sID (Instance malformedItem) \<noteq> []
   \<and> Action malformedItem = ScheduleActionStartInstance
   \<and> ProcessSchedule simOrc malformedItem emptyWorld
       = (Inl (Wrapped (External ''invalid character'') ''fail to parse schedule data''), emptyWorld)
   \<and> startInstance simOrc (sID (Instance malformedItem)) (sType (Instance malformedItem)) emptyWorld
       = (Inr \<lparr>ID = ''id-r1'', Type = InstanceTypeReplica, Name = ''r1'', HostID = ''host-1'',
               Address = ''10.0.0.6'', Running = True\<rparr>,
          emptyWorld\<lparr>calls := [Start ''id-r1'', Inspect ''id-r1'']\<rparr>)"
  by (simp add: malformedItem_def OrcName_def ProcessSchedule_def emptyWorld_def simOrc_def
        simHost_def startInstance_def ContainerStart_def generateInstanceInfo_def
        ContainerInspect_def GetCurrentHostID_def strings_TrimPrefix_def)

text \<open>
  Claim C7, amended. \<open>ProcessSchedule\<close> fails, leaving the world untouched: with the
  wrong-orchestrator error when the tag of the request differs from \<open>OrcName\<close>; with the
  wrapped parse error when the tag is right and the payload is non-empty and does not
  unmarshal; with some error whenever the instance ID is empty; with some error whenever
  the action is none of the five known ones. When the tag is right and the payload is
  empty or unmarshals to \<open>data\<close>, the result is the empty-ID error if the ID is empty, and
  otherwise that of the handler matching the action, run on \<open>data\<close> or on the instance ID
  and type, the unknown-action error standing for every other action.
\<close>

theorem ProcessSchedule_checks_and_dispatch:
  "(Orchestrator (sData item) \<noteq> OrcName \<longrightarrow>
      ProcessSchedule d item w
        = (Inl (Errorf ''received request for the wrong orchestrator %v''), w))
   \<and> (Orchestrator (sData item) = OrcName \<longrightarrow> Data (sData item) = Malformed s \<longrightarrow>
      ProcessSchedule d item w
        = (Inl (Wrapped (External s) ''fail to parse schedule data''), w))
   \<and> (sID (Instance item) = [] \<longrightarrow> (\<exists>err. ProcessSchedule d item w = (Inl err, w)))
   \<and> (Action item = OtherAction a \<longrightarrow> (\<exists>err. ProcessSchedule d item w = (Inl err, w)))
   \<and> (Orchestrator (sData item) = OrcName \<longrightarrow>
      (Data (sData item) = Json data
       \<or> Data (sData item) = NoBytes \<and> data = zero_dockerScheduleData) \<longrightarrow>
      ProcessSchedule d item w
        = (if sID (Instance item) = [] then (Inl (Errorf ''empty instance ID''), w)
           else case Action item of
                  ScheduleActionCreateController \<Rightarrow> createController d data w
                | ScheduleActionCreateReplica \<Rightarrow> createReplica d data w
                | ScheduleActionStartInstance \<Rightarrow>
                    startInstance d (sID (Instance item)) (sType (Instance item)) w
                | ScheduleActionStopInstance \<Rightarrow>
                    stopInstance d (sID (Instance item)) (sType (Instance item)) w
                | ScheduleActionDeleteInstance \<Rightarrow>
                    removeInstance d (sID (Instance item)) (sType (Instance item)) w
                | OtherAction a' \<Rightarrow> (Inl (Errorf ''Cannot find specified action %v''), w)))"
proof (intro conjI impI)
  assume "sID (Instance item) = []"
  then show "\<exists>err. ProcessSchedule d item w = (Inl err, w)"
    by (cases "Data (sData item)") (simp_all add: ProcessSchedule_def)
next
  assume "Action item = OtherAction a"
  then show "\<exists>err. ProcessSchedule d item w = (Inl err, w)"
    by (cases "Data (sData item)") (simp_all add: ProcessSchedule_def)
qed (auto simp: ProcessSchedule_def)

text \<open>
  A delete request that is dispatched, the same request under another tag, an unknown
  action, and the request whose payload does not parse.
\<close>

theorem ProcessSchedule_checks_and_dispatch_witness:
  "ProcessSchedule simOrc
       \<lparr>Action = ScheduleActionDeleteInstance,
        Instance = \<lparr>sID = ''id-r1'', sType = InstanceTypeReplica, sHostID = ''host-1''\<rparr>,
        sData = \<lparr>Orchestrator = ''docker'', Data = NoBytes\<rparr>\<rparr> emptyWorld
     = (Inr \<lparr>ID = ''id-r1'', Type = InstanceTypeReplica, Name = [], HostID = [],
             Address = [], Running = False\<rparr>,
        emptyWorld\<lparr>calls := [Remove ''id-r1'' True]\<rparr>)
   \<and> ProcessSchedule simOrc
       \<lparr>Action = ScheduleActionDeleteInstance,
        Instance = \<lparr>sID = ''id-r1'', sType = InstanceTypeReplica, sHostID = ''host-1''\<rparr>,
        sData = \<lparr>Orchestrator = ''kubernetes'', Data = NoBytes\<rparr>\<rparr> emptyWorld
     = (Inl (Errorf ''received request for the wrong orchestrator %v''), emptyWorld)
   \<and> ProcessSchedule simOrc
       \<lparr>Action = OtherAction ''pause'',
        Instance = \<lparr>sID = ''id-r1'', sType = InstanceTypeReplica, sHostID = ''host-1''\<rparr>,
        sData = \<lparr>Orchestrator = ''docker'', Data = NoBytes\<rparr>\<rparr> emptyWorld
     = (Inl (Errorf ''Cannot find specified action %v''), emptyWorld)
   \<and> ProcessSchedule simOrc malformedItem emptyWorld
     = (Inl (Wrapped (External ''invalid character'') ''fail to parse schedule data''), emptyWorld)"
proof -
  let ?i = "\<lambda>a tag. \<lparr>Action = a,
        Instance = \<lparr>sID = ''id-r1'', sType = InstanceTypeReplica, sHostID = ''host-1''\<rparr>,
        sData = \<lparr>Orchestrator = tag, Data = NoBytes\<rparr>\<rparr>"
  note t = ProcessSchedule_checks_and_dispatch [where d = simOrc and w = emptyWorld]
  have A: "ProcessSchedule simOrc (?i ScheduleActionDeleteInstance ''docker'') emptyWorld
     = (Inr \<lparr>ID = ''id-r1'', Type = InstanceTypeReplica, Name = [], HostID = [],
             Address = [], Running = False\<rparr>,
        emptyWorld\<lparr>calls := [Remove ''id-r1'' True]\<rparr>)"
    using t [where item = "?i ScheduleActionDeleteInstance ''docker''"
               and data = zero_dockerScheduleData, THEN conjunct2, THEN conjunct2,
             THEN conjunct2, THEN conjunct2]
    by (simp add: OrcName_def removeInstance_def ContainerRemove_def simOrc_def emptyWorld_def)
  have B: "ProcessSchedule simOrc (?i ScheduleActionDeleteInstance ''kubernetes'') emptyWorld
     = (Inl (Errorf ''received request for the wrong orchestrator %v''), emptyWorld)"
    using t [where item = "?i ScheduleActionDeleteInstance ''kubernetes''", THEN conjunct1]
    by (simp add: OrcName_def)
  have C: "ProcessSchedule simOrc (?i (OtherAction ''pause'') ''docker'') emptyWorld
     = (Inl (Errorf ''Cannot find specified action %v''), emptyWorld)"
    using t [where item = "?i (OtherAction ''pause'') ''docker''"
               and data = zero_dockerScheduleData, THEN conjunct2, THEN conjunct2,
             THEN conjunct2, THEN conjunct2]
    by (simp add: OrcName_def)
  have D: "ProcessSchedule simOrc malformedItem emptyWorld
     = (Inl (Wrapped (External ''invalid character'') ''fail to parse schedule data''), emptyWorld)"
    using t [where item = malformedItem and s = "''invalid character''",
             THEN conjunct2, THEN conjunct1]
    by (simp add: OrcName_def malformedItem_def)
  show ?thesis
    using A B C D by blast
qed

subsection \<open>The volume size and the creation of instances\<close>

text \<open>
  Claim C1, as stated, fails: \<open>prepareCreateController\<close> never looks at the size. For the
  stored volume \<open>vol0\<close> of size 0, \<open>CreateController\<close> on the simulated deployment succeeds,
  and the runtime has received the create call of the controller's container.
\<close>

theorem CreateController_zero_size_counterexample:
  "Size vol0 = 0 \<and> volumes simWorld ''vol0'' = Some vol0
   \<and> CreateController simOrc ''vol0'' ''c1'' [] simWorld
     = (Inr (ControllerInfo
               \<lparr>ID = ''id-c1'', Type = InstanceTypeController, Name = ''c1'', HostID = ''host-1'',
                Address = ''http://10.0.0.6:9501'', Running = True\<rparr>),
        simWorld
          \<lparr>calls :=
             [Create \<lparr>ExposedPorts = [], cImage = ''longhornio/engine:v1'', Volumes = [],
                      Cmd = [''launch'', ''controller'', ''--listen'', ''0.0.0.0:9501'',
                             ''--frontend'', ''tgt'', ''vol0'']\<rparr>
                     \<lparr>Binds = [''/dev:/host/dev'', ''/proc:/host/proc''], Privileged = True\<rparr>
                     ''c1'',
              Start ''id-c1'', Inspect ''id-c1''],
           scheduled :=
             [\<lparr>Action = ScheduleActionCreateController,
               Instance = \<lparr>sID = ''c1'', sType = InstanceTypeController, sHostID = ''host-1''\<rparr>,
               sData = \<lparr>Orchestrator = ''docker'',
                         Data = Json \<lparr>InstanceName = ''c1'', VolumeName = ''vol0'',
                                      VolumeSize = [],
                                      LonghornImage = ''longhornio/engine:v1'',
                                      ReplicaAddresses = []\<rparr>\<rparr>\<rparr>]\<rparr>)"
proof -
  have g: "getVolume simOrc ''vol0'' simWorld = Inr (Some vol0)"
    by (simp add: getVolume_def simOrc_def simWorld_def)
  have p: "prepareCreateController simOrc ''vol0'' ''c1'' [] simWorld
     = Inr (Some \<lparr>Orchestrator = ''docker'',
                  Data = Json \<lparr>InstanceName = ''c1'', VolumeName = ''vol0'', VolumeSize = [],
                               LonghornImage = ''longhornio/engine:v1'',
                               ReplicaAddresses = []\<rparr>\<rparr>)"
    by (simp add: prepareCreateController_def g json_Marshal_def OrcName_def vol0_def)
  have c: "createController simOrc
             \<lparr>InstanceName = ''c1'', VolumeName = ''vol0'', VolumeSize = [],
              LonghornImage = ''longhornio/engine:v1'', ReplicaAddresses = []\<rparr> w
     = (Inr \<lparr>ID = ''id-c1'', Type = InstanceTypeController, Name = ''c1'', HostID = ''host-1'',
             Address = ''http://10.0.0.6:9501'', Running = True\<rparr>,
        w\<lparr>calls := calls w @
             [Create \<lparr>ExposedPorts = [], cImage = ''longhornio/engine:v1'', Volumes = [],
                      Cmd = [''launch'', ''controller'', ''--listen'', ''0.0.0.0:9501'',
                             ''--frontend'', ''tgt'', ''vol0'']\<rparr>
                     \<lparr>Binds = [''/dev:/host/dev'', ''/proc:/host/proc''], Privileged = True\<rparr>
                     ''c1'',
              Start ''id-c1'', Inspect ''id-c1'']\<rparr>)" for w
    by (simp add: createController_def ContainerCreate_def controllerConfig_def
          controllerCmd_def controllerHostConfig_def startInstance_def ContainerStart_def
          generateInstanceInfo_def ContainerInspect_def GetCurrentHostID_def
          strings_TrimPrefix_def simOrc_def simHost_def getDeviceName_def)
  have "CreateController simOrc ''vol0'' ''c1'' [] simWorld
     = (Inr (ControllerInfo
               \<lparr>ID = ''id-c1'', Type = InstanceTypeController, Name = ''c1'', HostID = ''host-1'',
                Address = ''http://10.0.0.6:9501'', Running = True\<rparr>),
        simWorld
          \<lparr>calls :=
             [Create \<lparr>ExposedPorts = [], cImage = ''longhornio/engine:v1'', Volumes = [],
                      Cmd = [''launch'', ''controller'', ''--listen'', ''0.0.0.0:9501'',
                             ''--frontend'', ''tgt'', ''vol0'']\<rparr>
                     \<lparr>Binds = [''/dev:/host/dev'', ''/proc:/host/proc''], Privileged = True\<rparr>
                     ''c1'',
              Start ''id-c1'', Inspect ''id-c1''],
           scheduled :=
             [\<lparr>Action = ScheduleActionCreateController,
               Instance = \<lparr>sID = ''c1'', sType = InstanceTypeController, sHostID = ''host-1''\<rparr>,
               sData = \<lparr>Orchestrator = ''docker'',
                         Data = Json \<lparr>InstanceName = ''c1'', VolumeName = ''vol0'',
                                      VolumeSize = [],
                                      LonghornImage = ''longhornio/engine:v1'',
                                      ReplicaAddresses = []\<rparr>\<rparr>\<rparr>]\<rparr>)"
  proof -
    have h: "UUID (currentHost simOrc) = ''host-1''"
      by (simp add: simOrc_def simHost_def)
    have r: "scheduler simOrc
               \<lparr>Action = a, Instance = \<lparr>sID = i, sType = t, sHostID = ''host-1''\<rparr>, sData = x\<rparr>
             = ThisHost" for a i t x
      by (simp add: simOrc_def)
    have e: "calls simWorld = []" "scheduled simWorld = []"
      by (simp_all add: simWorld_def)
    show ?thesis
      unfolding CreateController_def p
      by (simp add: Schedule_def ProcessSchedule_def OrcName_def c GetCurrentHostID_def h r e)
  qed
  then show ?thesis
    by (simp add: vol0_def simWorld_def)
qed

lemma prepareCreateController_found:
  "getVolume d volumeName w = Inr (Some volume) \<Longrightarrow>
   prepareCreateController d volumeName controllerName replicas w
     = Inr (Some \<lparr>Orchestrator = OrcName,
                  Data = Json \<lparr>InstanceName = controllerName,
                               VolumeName = volumeName,
                               VolumeSize = [],
                               LonghornImage = vLonghornImage volume,
                               ReplicaAddresses =
                                 map (\<lambda>(k, replica). ''tcp://'' @ Address replica @ '':9502'')
                                     replicas\<rparr>\<rparr>)"
  unfolding prepareCreateController_def json_Marshal_def Let_def replica_endpoints_foldl
  by simp

lemma CreateController_world:
  "prepareCreateController d volumeName controllerName replicas w = Inr (Some sd) \<Longrightarrow>
   snd (CreateController d volumeName controllerName replicas w)
     = snd (Schedule d \<lparr>Action = ScheduleActionCreateController,
                         Instance = \<lparr>sID = controllerName, sType = InstanceTypeController,
                                     sHostID = GetCurrentHostID d\<rparr>,
                         sData = sd\<rparr> w)"
  by (simp add: CreateController_def Let_def case_prod_unfold split: sum.split)

text \<open>
  Claim C1, amended. The test for size 0 is in \<open>prepareCreateReplica\<close> only. For a stored
  volume of size 0, \<open>CreateReplica\<close> does not return a replica and leaves the world as it
  was: no request reaches the Scheduler and no call reaches the Container Runtime. For a
  stored volume of any size, 0 included, \<open>CreateController\<close> hands exactly one
  create-controller request to the Scheduler, and when the Scheduler routes it to this
  host and the controller name is not empty, the create call of the container is issued.
\<close>

theorem zero_size_guard_is_on_replicas:
  "(getVolume d volumeName w = Inr (Some volume) \<longrightarrow> Size volume = 0 \<longrightarrow>
      snd (CreateReplica d volumeName replicaName w) = w
      \<and> (\<forall>replica. fst (CreateReplica d volumeName replicaName w) \<noteq> Inr replica))
   \<and> (getVolume d volumeName w = Inr (Some volume) \<longrightarrow>
      (\<exists>item. scheduled (snd (CreateController d volumeName controllerName replicas w))
                = scheduled w @ [item]
            \<and> Action item = ScheduleActionCreateController
            \<and> (scheduler d item = ThisHost \<longrightarrow> controllerName \<noteq> [] \<longrightarrow>
                 (\<exists>config cs. calls (snd (CreateController d volumeName controllerName replicas w))
                     = calls w @ Create config controllerHostConfig controllerName # cs))))"
proof (intro conjI impI)
  assume g: "getVolume d volumeName w = Inr (Some volume)" and z: "Size volume = 0"
  have p: "prepareCreateReplica d volumeName replicaName w = Inr None"
    using g z by (simp add: prepareCreateReplica_def)
  show "snd (CreateReplica d volumeName replicaName w) = w"
    by (simp add: CreateReplica_def p)
  show "\<forall>replica. fst (CreateReplica d volumeName replicaName w) \<noteq> Inr replica"
    by (simp add: CreateReplica_def p)
next
  assume g: "getVolume d volumeName w = Inr (Some volume)"
  let ?pd = "\<lparr>InstanceName = controllerName, VolumeName = volumeName, VolumeSize = [],
              LonghornImage = vLonghornImage volume,
              ReplicaAddresses =
                map (\<lambda>(k, replica). ''tcp://'' @ Address replica @ '':9502'') replicas\<rparr>"
  let ?item = "\<lparr>Action = ScheduleActionCreateController,
                 Instance = \<lparr>sID = controllerName, sType = InstanceTypeController,
                             sHostID = GetCurrentHostID d\<rparr>,
                 sData = \<lparr>Orchestrator = OrcName, Data = Json ?pd\<rparr>\<rparr>"
  let ?w1 = "w\<lparr>scheduled := scheduled w @ [?item]\<rparr>"
  have w': "snd (CreateController d volumeName controllerName replicas w)
              = snd (Schedule d ?item w)"
    using CreateController_world [OF prepareCreateController_found [OF g]] .
  obtain cs where "snd (Schedule d ?item w)
      = w\<lparr>calls := calls w @ cs, scheduled := scheduled w @ [?item]\<rparr>"
    using Schedule_appends by blast
  then have s: "scheduled (snd (CreateController d volumeName controllerName replicas w))
                  = scheduled w @ [?item]"
    by (simp add: w')
  have c: "\<exists>config cs. calls (snd (CreateController d volumeName controllerName replicas w))
                     = calls w @ Create config controllerHostConfig controllerName # cs"
    if r: "scheduler d ?item = ThisHost" and n: "controllerName \<noteq> []"
  proof -
    have "Schedule d ?item w = createController d ?pd ?w1"
      using r n by (simp add: Schedule_def ProcessSchedule_def)
    moreover obtain cs where "snd (createController d ?pd ?w1)
           = ?w1\<lparr>calls := calls ?w1 @ Create (controllerConfig ?pd) controllerHostConfig
                                     (InstanceName ?pd) # cs\<rparr>"
      using createController_appends by blast
    ultimately have "calls (snd (CreateController d volumeName controllerName replicas w))
           = calls w @ Create (controllerConfig ?pd) controllerHostConfig controllerName # cs"
      by (simp add: w')
    then show ?thesis by blast
  qed
  show "\<exists>item. scheduled (snd (CreateController d volumeName controllerName replicas w))
                = scheduled w @ [item]
            \<and> Action item = ScheduleActionCreateController
            \<and> (scheduler d item = ThisHost \<longrightarrow> controllerName \<noteq> [] \<longrightarrow>
                 (\<exists>config cs. calls (snd (CreateController d volumeName controllerName replicas w))
                     = calls w @ Create config controllerHostConfig controllerName # cs))"
    using s c by (intro exI [of _ ?item]) simp
qed

text \<open>The volume \<open>vol0\<close> of size 0 on the simulated deployment.\<close>

theorem zero_size_guard_is_on_replicas_witness:
  "Size vol0 = 0
   \<and> snd (CreateReplica simOrc ''vol0'' ''r1'' simWorld) = simWorld
   \<and> fst (CreateReplica simOrc ''vol0'' ''r1'' simWorld)
       \<noteq> Inr (simReplica ''r1'' ''10.0.0.6'')
   \<and> length (scheduled (snd (CreateController simOrc ''vol0'' ''c1'' [] simWorld))) = 1"
proof -
  have g: "getVolume simOrc ''vol0'' simWorld = Inr (Some vol0)"
    by (simp add: getVolume_def simOrc_def simWorld_def)
  have z: "Size vol0 = 0"
    by (simp add: vol0_def)
  note t = zero_size_guard_is_on_replicas
      [where d = simOrc and w = simWorld and volumeName = "''vol0''" and volume = vol0]
  have A: "snd (CreateReplica simOrc ''vol0'' ''r1'' simWorld) = simWorld
           \<and> fst (CreateReplica simOrc ''vol0'' ''r1'' simWorld) \<noteq> Inr (simReplica ''r1'' ''10.0.0.6'')"
    using t [where replicaName = "''r1''", THEN conjunct1] g z by simp
  have "\<exists>item. scheduled (snd (CreateController simOrc ''vol0'' ''c1'' [] simWorld))
                = scheduled simWorld @ [item]"
    using t [where controllerName = "''c1''" and replicas = "[]", THEN conjunct2] g by blast
  then have B: "length (scheduled (snd (CreateController simOrc ''vol0'' ''c1'' [] simWorld))) = 1"
    by (auto simp: simWorld_def)
  show ?thesis
    using z A B by blast
qed

end
